theory Spec2Isabelle
  imports Main "HOL-Library.Product_Lexorder"
begin

section \<open>Values of the JavaScript runtime\<close>

text \<open>
  The server and the sales page exchange JSON. \<open>JSON.parse\<close> and \<open>JSON.stringify\<close>
  belong to the runtime, so the model keeps the value that is parsed or serialised:
  an incoming text is the value \<open>JSON.parse\<close> returns for it, or \<open>None\<close> when
  \<open>JSON.parse\<close> throws a SyntaxError; an outgoing text is the value handed to
  \<open>JSON.stringify\<close>. Numbers are the integers the code uses (identifiers, counts,
  milliseconds).
\<close>

datatype json =
    JNull
  | JBool bool
  | JNum int
  | JStr string
  | JArr "json list"
  | JObj "(string \<times> json) list"

datatype jsval = Undefined | Val json

datatype exn = SyntaxError | TypeError | SendError

text \<open>Property access \<open>v.k\<close>: on \<open>null\<close> it throws a TypeError, on an object it
  reads the property, on every other JSON value the properties read here
  (\<open>type\<close>, \<open>count\<close>, \<open>message\<close>) are undefined.\<close>

fun get_prop :: "json \<Rightarrow> string \<Rightarrow> exn + jsval" where
  "get_prop JNull k = Inl TypeError"
| "get_prop (JObj kvs) k = Inr (case map_of kvs k of None \<Rightarrow> Undefined | Some v \<Rightarrow> Val v)"
| "get_prop v k = Inr Undefined"

text \<open>The truth value of a JSON value in a condition (\<open>if (cachedData)\<close>).\<close>

fun truthy :: "json \<Rightarrow> bool" where
  "truthy JNull = False"
| "truthy (JBool b) = b"
| "truthy (JNum n) = (n \<noteq> 0)"
| "truthy (JStr s) = (s \<noteq> [])"
| "truthy (JArr xs) = True"
| "truthy (JObj kvs) = True"

section \<open>The WebSocket server (server/websocket.ts)\<close>

text \<open>A connection is the identity of its \<open>WebSocket\<close> object.\<close>

type_synonym ws = nat

datatype ready_state = CONNECTING | OPEN | CLOSING | CLOSED

record WSEvent =
  type :: string
  payload :: "json option"
  timestamp :: "int option"

text \<open>The object \<open>JSON.stringify\<close> serialises for an event: absent optional fields
  are left out, the fields stand in the order the source writes them.\<close>

definition event_json :: "WSEvent \<Rightarrow> json" where
  "event_json e =
     JObj ([(''type'', JStr (type e))]
           @ (case payload e of None \<Rightarrow> [] | Some p \<Rightarrow> [(''payload'', p)])
           @ (case timestamp e of None \<Rightarrow> [] | Some t \<Rightarrow> [(''timestamp'', JNum t)]))"

datatype log_entry =
    LogConfigured
  | LogNewConnection
  | LogReceived jsval
  | LogProcessError exn
  | LogClosed
  | LogPingError exn
  | LogBroadcast string

text \<open>
  The module's state: the global array \<open>connections\<close>, each socket's \<open>readyState\<close>,
  the sockets whose \<open>message\<close> and \<open>close\<close> handlers are registered, the sockets whose
  \<open>setInterval\<close> timer is running, the messages handed to \<open>ws.send\<close> (calls that
  returned), and the lines written by \<open>log\<close>.
\<close>

record server =
  connections :: "ws list"
  readyState :: "ws \<Rightarrow> ready_state"
  handlers :: "ws set"
  intervals :: "ws set"
  sent :: "(ws \<times> json) list"
  logs :: "log_entry list"

text \<open>What the handlers read from outside: the clock (\<open>Date.now()\<close>, milliseconds)
  and whether \<open>ws.send\<close> on a socket throws.\<close>

record env =
  now :: int
  send_throws :: "ws \<Rightarrow> bool"

definition log :: "log_entry \<Rightarrow> server \<Rightarrow> server" where
  "log l s = s\<lparr>logs := logs s @ [l]\<rparr>"

definition ws_send :: "env \<Rightarrow> ws \<Rightarrow> json \<Rightarrow> server \<Rightarrow> exn + server" where
  "ws_send e w m s =
     (if send_throws e w then Inl SendError else Inr (s\<lparr>sent := sent s @ [(w, m)]\<rparr>))"

text \<open>\<open>ws.terminate()\<close> of the ws library: an open socket goes to CLOSING and its
  transport is destroyed; the \<open>close\<close> event follows when the transport reports it.\<close>

definition ws_terminate :: "ws \<Rightarrow> server \<Rightarrow> server" where
  "ws_terminate w s =
     (if readyState s w = CLOSED then s
      else s\<lparr>readyState := (readyState s)(w := CLOSING)\<rparr>)"

definition clearInterval :: "ws \<Rightarrow> server \<Rightarrow> server" where
  "clearInterval w s = s\<lparr>intervals := intervals s - {w}\<rparr>"

definition ping_interval_ms :: int where
  "ping_interval_ms = 15000"

definition welcomeEvent :: WSEvent where
  "welcomeEvent =
     \<lparr>type = ''ping'',
      payload = Some (JObj [(''message'', JStr ''Conectado ao servidor em tempo real'')]),
      timestamp = None\<rparr>"

definition pongEvent :: "int \<Rightarrow> WSEvent" where
  "pongEvent t =
     \<lparr>type = ''pong'',
      payload = Some (JObj [(''message'', JStr ''Pong resposta ao ping'')]),
      timestamp = Some t\<rparr>"

text \<open>The text of the periodic ping is written without its accent here.\<close>

definition pingEvent :: "int \<Rightarrow> WSEvent" where
  "pingEvent t =
     \<lparr>type = ''ping'',
      payload = Some (JObj [(''message'', JStr ''Ping periodico do servidor'')]),
      timestamp = Some t\<rparr>"

text \<open>
  The \<open>connection\<close> handler: push the socket, send the welcome event, register the
  \<open>message\<close> and \<open>close\<close> handlers and start the 15000 ms timer. The welcome
  \<open>ws.send\<close> is not guarded: when it throws, the handler ends there, with the socket
  already in \<open>connections\<close>.
\<close>

definition on_connection :: "env \<Rightarrow> ws \<Rightarrow> server \<Rightarrow> exn option \<times> server" where
  "on_connection e w s =
     (let s1 = log LogNewConnection s;
          s2 = s1\<lparr>connections := connections s1 @ [w]\<rparr>
      in case ws_send e w (event_json welcomeEvent) s2 of
           Inl x \<Rightarrow> (Some x, s2)
         | Inr s3 \<Rightarrow> (None, s3\<lparr>handlers := insert w (handlers s3),
                                intervals := insert w (intervals s3)\<rparr>))"

text \<open>
  The \<open>message\<close> handler. Everything happens inside \<open>try\<close>: a text that is not JSON
  (\<open>None\<close>), the access \<open>event.type\<close> on \<open>null\<close> and a throwing \<open>ws.send\<close> all end in
  the \<open>catch\<close>, which logs.
\<close>

definition on_message :: "env \<Rightarrow> ws \<Rightarrow> json option \<Rightarrow> server \<Rightarrow> server" where
  "on_message e w message s =
     (case message of
        None \<Rightarrow> log (LogProcessError SyntaxError) s
      | Some event \<Rightarrow>
          (case get_prop event ''type'' of
             Inl x \<Rightarrow> log (LogProcessError x) s
           | Inr t \<Rightarrow>
               (let s1 = log (LogReceived t) s
                in if t = Val (JStr ''ping'')
                   then (case ws_send e w (event_json (pongEvent (now e))) s1 of
                           Inl x \<Rightarrow> log (LogProcessError x) s1
                         | Inr s2 \<Rightarrow> s2)
                   else s1)))"

text \<open>The two \<open>close\<close> handlers, in the order they are registered: remove the first
  occurrence of the socket from \<open>connections\<close> (\<open>indexOf\<close>, \<open>splice\<close>), log, clear the
  timer.\<close>

definition on_close :: "ws \<Rightarrow> server \<Rightarrow> server" where
  "on_close w s =
     (let s1 = (if w \<in> set (connections s)
                then s\<lparr>connections := remove1 w (connections s)\<rparr> else s);
          s2 = log LogClosed s1
      in clearInterval w s2)"

text \<open>The timer's callback, run every \<open>ping_interval_ms\<close> while the timer is set.\<close>

definition on_interval :: "env \<Rightarrow> ws \<Rightarrow> server \<Rightarrow> server" where
  "on_interval e w s =
     (let s1 = (if readyState s w = OPEN
                then (case ws_send e w (event_json (pingEvent (now e))) s of
                        Inl x \<Rightarrow> ws_terminate w (log (LogPingError x) s)
                      | Inr s' \<Rightarrow> s')
                else s)
      in if readyState s1 w \<noteq> OPEN then clearInterval w s1 else s1)"

text \<open>What can happen to the server: a client connects, a socket delivers a text, a
  socket's transport reports closed (the library sets CLOSED and emits \<open>close\<close>), a
  socket's timer fires. Handlers run only where they are registered.\<close>

datatype event =
    Connection ws
  | Message ws "json option"
  | TransportClosed ws
  | Timer ws

fun step :: "env \<Rightarrow> event \<Rightarrow> server \<Rightarrow> server" where
  "step e (Connection w) s = snd (on_connection e w (s\<lparr>readyState := (readyState s)(w := OPEN)\<rparr>))"
| "step e (Message w m) s = (if w \<in> handlers s then on_message e w m s else s)"
| "step e (TransportClosed w) s =
     (let s1 = s\<lparr>readyState := (readyState s)(w := CLOSED)\<rparr>
      in if w \<in> handlers s then on_close w s1 else s1)"
| "step e (Timer w) s = (if w \<in> intervals s then on_interval e w s else s)"

fun run :: "env \<Rightarrow> event list \<Rightarrow> server \<Rightarrow> server" where
  "run e [] s = s"
| "run e (ev # evs) s = run e evs (step e ev s)"

text \<open>\<open>broadcastEvent\<close>: serialise once, log, then \<open>forEach\<close> over \<open>connections\<close>. A
  throwing \<open>client.send\<close> leaves the loop and the function.\<close>

fun send_each :: "env \<Rightarrow> json \<Rightarrow> ws list \<Rightarrow> server \<Rightarrow> exn option \<times> server" where
  "send_each e m [] s = (None, s)"
| "send_each e m (client # rest) s =
     (if readyState s client = OPEN
      then (case ws_send e client m s of
              Inl x \<Rightarrow> (Some x, s)
            | Inr s' \<Rightarrow> send_each e m rest s')
      else send_each e m rest s)"

definition broadcastEvent :: "env \<Rightarrow> WSEvent \<Rightarrow> server \<Rightarrow> exn option \<times> server" where
  "broadcastEvent e ev s =
     (let message = event_json ev;
          s1 = log (LogBroadcast (type ev)) s
      in send_each e message (connections s1) s1)"

definition notifySalesUpdate :: "env \<Rightarrow> server \<Rightarrow> exn option \<times> server" where
  "notifySalesUpdate e s =
     broadcastEvent e
       \<lparr>type = ''sales_update'',
        payload = Some (JObj [(''timestamp'', JNum (now e))]),
        timestamp = None\<rparr> s"

section \<open>The sales page (client)\<close>

subsection \<open>Requests, responses, thrown values\<close>

text \<open>
  The HTTP server is not part of these sources: what \<open>fetch\<close> returns is an input of
  each function, a response with its \<open>ok\<close> flag and its JSON body. The page's requests
  are recorded in the order they are made.
\<close>

record response =
  ok :: bool
  body :: json

record request =
  http_method :: string
  url :: string
  query :: "(string \<times> string) list"
  payload_sent :: "json option"

text \<open>A rejected promise carries \<open>new Error(m)\<close> or a runtime exception. Messages
  are written without their accents.\<close>

datatype thrown = Error json | Exn exn

text \<open>\<open>throw new Error(error.message || d)\<close> for the parsed error body \<open>error\<close>.\<close>

definition error_of :: "json \<Rightarrow> string \<Rightarrow> thrown" where
  "error_of err d =
     (case get_prop err ''message'' of
        Inl x \<Rightarrow> Exn x
      | Inr Undefined \<Rightarrow> Error (JStr d)
      | Inr (Val m) \<Rightarrow> if truthy m then Error m else Error (JStr d))"

text \<open>\<open>n.toString()\<close> for the integers of the page (identifiers, page numbers).\<close>

fun digits :: "nat \<Rightarrow> string" where
  "digits n =
     (if n < 10 then [''0123456789'' ! n]
      else digits (n div 10) @ [''0123456789'' ! (n mod 10)])"

declare digits.simps [simp del]

definition toString :: "int \<Rightarrow> string" where
  "toString i = (if i < 0 then CHR ''-'' # digits (nat (- i)) else digits (nat i))"

subsection \<open>Types of the page\<close>

record user =
  user_id :: int
  role :: string

text \<open>The fields of \<open>Sale\<close> that the modelled code reads.\<close>

record Sale =
  sale_id :: int
  orderNumber :: string
  sellerId :: int
  status :: string
  executionStatus :: string
  financialStatus :: string

text \<open>A \<open>Date\<close> is kept as the text \<open>toISOString()\<close> gives for it.\<close>

record DateRange =
  from_date :: "string option"
  to_date :: "string option"

datatype toast =
    ToastVendaExcluida
  | ToastVendasRemovidas jsval
  | ToastVendaReenviada
  | ToastPagamentoConfirmado
  | ToastAtualizacaoVendas
  | ToastErro string thrown

subsection \<open>The two cache tiers\<close>

text \<open>
  The query cache of the query library (TanStack Query, not part of the repository):
  an entry per query key with its data, the time of its last update and the
  invalidation mark. \<open>markInvalidated k\<close> sets the mark (\<open>Query.invalidate()\<close>) on
  every entry whose key starts with \<open>k\<close>.
\<close>

type_synonym query_key = "jsval list"

record cache_entry =
  data :: json
  dataUpdatedAt :: int
  isInvalidated :: bool

type_synonym query_cache = "query_key \<rightharpoonup> cache_entry"

definition partialMatchKey :: "query_key \<Rightarrow> query_key \<Rightarrow> bool" where
  "partialMatchKey a b = (take (length b) a = b)"

definition markInvalidated :: "query_key \<Rightarrow> query_cache \<Rightarrow> query_cache" where
  "markInvalidated k qc =
     (\<lambda>q. case qc q of
            None \<Rightarrow> None
          | Some en \<Rightarrow> Some (if partialMatchKey q k then en\<lparr>isInvalidated := True\<rparr> else en))"

text \<open>
  Modelled from the spec: the read of the volatile tier (section 4.4), which the query
  library implements. A read within the fresh window of an entry that is not
  invalidated returns the cached page without a request; any other read refetches and
  swaps the fetched page in. The result is the page the view ends with, whether a
  request was made, and the cache.
\<close>

definition readQuery ::
  "int \<Rightarrow> int \<Rightarrow> query_key \<Rightarrow> json \<Rightarrow> query_cache \<Rightarrow> json \<times> bool \<times> query_cache" where
  "readQuery t fresh_for k fetched qc =
     (case qc k of
        None \<Rightarrow> (fetched, True, qc(k \<mapsto> \<lparr>data = fetched, dataUpdatedAt = t, isInvalidated = False\<rparr>))
      | Some en \<Rightarrow>
          if isInvalidated en \<or> t - dataUpdatedAt en \<ge> fresh_for
          then (fetched, True, qc(k \<mapsto> \<lparr>data = fetched, dataUpdatedAt = t, isInvalidated = False\<rparr>))
          else (data en, False, qc))"

text \<open>
  \<open>localStorage\<close>: what is stored under a key is the text \<open>saveToLocalCache\<close> wrote,
  an object with \<open>data\<close> and \<open>timestamp\<close>, or a text of any other origin, which
  \<open>getFromLocalCache\<close> fails to read (\<open>Unparsable\<close>).
\<close>

datatype item = Item json int | Unparsable

type_synonym local_storage = "string \<rightharpoonup> item"

definition staleTime :: int where
  "staleTime = 5 * 60 * 1000"

definition gcTime :: int where
  "gcTime = 30 * 60 * 1000"

definition localStorageCacheTime :: int where
  "localStorageCacheTime = 60 * 60 * 1000"

text \<open>The \<open>staleTime\<close> option of the sales query.\<close>

definition salesStaleTime :: int where
  "salesStaleTime = 30000"

text \<open>\<open>getFromLocalCache\<close> at time \<open>t\<close>: the cached data, or \<open>null\<close>; an expired entry
  is removed.\<close>

definition getFromLocalCache :: "int \<Rightarrow> string \<Rightarrow> local_storage \<Rightarrow> json \<times> local_storage" where
  "getFromLocalCache t key ls =
     (case ls (''cache_'' @ key) of
        None \<Rightarrow> (JNull, ls)
      | Some Unparsable \<Rightarrow> (JNull, ls)
      | Some (Item cached stamp) \<Rightarrow>
          (let isExpired = (t - stamp > localStorageCacheTime)
           in if \<not> isExpired then (cached, ls)
              else (JNull, ls((''cache_'' @ key) := None))))"

text \<open>\<open>saveToLocalCache\<close> at time \<open>t\<close>; a throwing \<open>setItem\<close> is caught and logged.\<close>

definition saveToLocalCache ::
  "bool \<Rightarrow> int \<Rightarrow> string \<Rightarrow> json \<Rightarrow> local_storage \<Rightarrow> local_storage" where
  "saveToLocalCache setItem_throws t key d ls =
     (if setItem_throws then ls else ls((''cache_'' @ key) \<mapsto> Item d t))"

subsection \<open>The state of the page\<close>

record client =
  page :: int
  limit :: int
  totalPages :: jsval
  totalRecords :: jsval
  statusFilter :: string
  searchTerm :: string
  sortField :: string
  sortDirection :: string
  dateRange :: "DateRange option"
  selectedSellerId :: string
  deleteDialogOpen :: bool
  clearSalesDialogOpen :: bool
  toasts :: "toast list"
  queryCache :: query_cache
  localStorage :: local_storage
  requests :: "request list"

text \<open>The state of a freshly mounted page, by the \<open>useState\<close> initial values.\<close>

definition initial_client :: client where
  "initial_client =
     \<lparr>page = 1, limit = 15, totalPages = Val (JNum 1), totalRecords = Val (JNum 0),
      statusFilter = [], searchTerm = [], sortField = ''date'', sortDirection = ''desc'',
      dateRange = None, selectedSellerId = ''all'', deleteDialogOpen = False,
      clearSalesDialogOpen = False, toasts = [], queryCache = Map.empty,
      localStorage = Map.empty, requests = []\<rparr>"

definition salesKey :: query_key where
  "salesKey = [Val (JStr ''/api/sales'')]"

subsection \<open>The sales query\<close>

definition role_is :: "user option \<Rightarrow> string \<Rightarrow> bool" where
  "role_is u r = (case u of None \<Rightarrow> False | Some x \<Rightarrow> role x = r)"

definition isoDay :: "string \<Rightarrow> string" where
  "isoDay d = takeWhile (\<lambda>c. c \<noteq> CHR ''T'') d"

definition salesQueryKey :: "user option \<Rightarrow> client \<Rightarrow> query_key" where
  "salesQueryKey u s =
     [Val (JStr ''/api/sales''),
      (case u of
         None \<Rightarrow> Val (JStr ''all'')
       | Some x \<Rightarrow> if role x = ''vendedor'' then Val (JNum (user_id x)) else Val (JStr ''all'')),
      Val (JNum (page s)), Val (JNum (limit s)),
      Val (JStr (statusFilter s)), Val (JStr (searchTerm s)),
      Val (JStr (sortField s)), Val (JStr (sortDirection s)),
      (case dateRange s of
         None \<Rightarrow> Undefined
       | Some r \<Rightarrow> (case from_date r of None \<Rightarrow> Undefined | Some d \<Rightarrow> Val (JStr d))),
      (case dateRange s of
         None \<Rightarrow> Undefined
       | Some r \<Rightarrow> (case to_date r of None \<Rightarrow> Undefined | Some d \<Rightarrow> Val (JStr d))),
      Val (JStr (selectedSellerId s))]"

text \<open>The \<open>URLSearchParams\<close> the query function builds from the rendered state.\<close>

definition salesQueryParams :: "user option \<Rightarrow> client \<Rightarrow> (string \<times> string) list" where
  "salesQueryParams u s =
     [(''page'', toString (page s)), (''limit'', toString (limit s))]
     @ (if sortField s \<noteq> [] then [(''sortField'', sortField s)] else [])
     @ (if sortDirection s \<noteq> [] then [(''sortDirection'', sortDirection s)] else [])
     @ (if statusFilter s \<noteq> [] then [(''status'', statusFilter s)] else [])
     @ (if searchTerm s \<noteq> [] then [(''searchTerm'', searchTerm s)] else [])
     @ (case dateRange s of
          None \<Rightarrow> []
        | Some r \<Rightarrow> (case from_date r of None \<Rightarrow> [] | Some d \<Rightarrow> [(''startDate'', isoDay d)]))
     @ (case dateRange s of
          None \<Rightarrow> []
        | Some r \<Rightarrow> (case to_date r of None \<Rightarrow> [] | Some d \<Rightarrow> [(''endDate'', isoDay d)]))
     @ (if selectedSellerId s \<noteq> [] \<and> selectedSellerId s \<noteq> ''all''
        then [(''sellerId'', selectedSellerId s)]
        else (case u of
                None \<Rightarrow> []
              | Some x \<Rightarrow> if role x = ''vendedor'' then [(''sellerId'', toString (user_id x))] else []))"

definition salesRequest :: "user option \<Rightarrow> client \<Rightarrow> request" where
  "salesRequest u s =
     \<lparr>http_method = ''GET'', url = ''/api/sales'', query = salesQueryParams u s, payload_sent = None\<rparr>"

text \<open>
  \<open>queryClient.invalidateQueries({ queryKey: k })\<close> of the query library, called while
  the page is rendered with state \<open>s\<close>: every cached entry whose key starts with \<open>k\<close>
  is marked, and the mounted queries among them are refetched at once. Of the
  page's queries only the sales query has a key under \<open>/api/sales\<close>, the one key the
  page invalidates. The refetch runs the query function of the last render: its
  request is built from the user, page, size, filters and sort of \<open>s\<close>, not from the
  state updates that the calling handler has scheduled for the next render.
\<close>

definition invalidateQueries :: "query_key \<Rightarrow> user option \<Rightarrow> client \<Rightarrow> client" where
  "invalidateQueries k u s =
     s\<lparr>queryCache := markInvalidated k (queryCache s),
       requests := requests s
         @ (if partialMatchKey (salesQueryKey u s) k then [salesRequest u s] else [])\<rparr>"

subsection \<open>Filters and pagination\<close>

text \<open>
  The handlers run in the state \<open>s\<close> of the last render. \<open>setSelectedSellerId\<close>,
  \<open>setDateRange\<close>, \<open>setPage\<close> and \<open>setLimit\<close> schedule their updates for the next
  render; \<open>invalidateQueries\<close> acts in the handler itself. The result is the state of
  the next render.
\<close>

definition handleSellerFilterChange :: "user option \<Rightarrow> string \<Rightarrow> client \<Rightarrow> client" where
  "handleSellerFilterChange u v s =
     (invalidateQueries salesKey u s)\<lparr>selectedSellerId := v, page := 1\<rparr>"

definition handleDateRangeChange :: "user option \<Rightarrow> DateRange option \<Rightarrow> client \<Rightarrow> client" where
  "handleDateRangeChange u rng s =
     (invalidateQueries salesKey u s)\<lparr>dateRange := rng, page := 1\<rparr>"

definition onPageChange :: "int \<Rightarrow> client \<Rightarrow> client" where
  "onPageChange newPage s = s\<lparr>page := newPage\<rparr>"

definition onPageSizeChange :: "int \<Rightarrow> client \<Rightarrow> client" where
  "onPageSizeChange newSize s = s\<lparr>limit := newSize, page := 1\<rparr>"

text \<open>The query function of the sales query: one request, no use of the local cache;
  the pagination totals are taken from the answer.\<close>

definition salesQueryFn :: "user option \<Rightarrow> response \<Rightarrow> client \<Rightarrow> (thrown + json) \<times> client" where
  "salesQueryFn u resp s =
     (let s1 = s\<lparr>requests := requests s
                  @ [\<lparr>http_method = ''GET'', url = ''/api/sales'', query = salesQueryParams u s,
                      payload_sent = None\<rparr>]\<rparr>
      in if \<not> ok resp then (Inl (Error (JStr ''Erro ao carregar vendas'')), s1)
         else (case get_prop (body resp) ''totalPages'' of
                 Inl x \<Rightarrow> (Inl (Exn x), s1)
               | Inr tp \<Rightarrow>
                   (case get_prop (body resp) ''total'' of
                      Inl x \<Rightarrow> (Inl (Exn x), s1\<lparr>totalPages := tp\<rparr>)
                    | Inr tr \<Rightarrow> (Inr (body resp), s1\<lparr>totalPages := tp, totalRecords := tr\<rparr>))))"

subsection \<open>The queries of the reference data\<close>

text \<open>
  The five query functions (customers, users, payment methods, service types, service
  providers) are the same text with another cache key, address and message: read the
  local cache at time \<open>t\<close>; a truthy value is the answer; otherwise fetch, and store
  the answer at time \<open>t'\<close>.
\<close>

definition cachedQueryFn ::
  "string \<Rightarrow> string \<Rightarrow> string \<Rightarrow> bool \<Rightarrow> int \<Rightarrow> int \<Rightarrow> response \<Rightarrow> client
     \<Rightarrow> (thrown + json) \<times> client" where
  "cachedQueryFn key address msg setItem_throws t t' resp s =
     (case getFromLocalCache t key (localStorage s) of
        (cachedData, ls1) \<Rightarrow>
          (let s1 = s\<lparr>localStorage := ls1\<rparr>
           in if truthy cachedData then (Inr cachedData, s1)
              else (let s2 = s1\<lparr>requests := requests s1
                               @ [\<lparr>http_method = ''GET'', url = address, query = [],
                                   payload_sent = None\<rparr>]\<rparr>
                    in if \<not> ok resp then (Inl (Error (JStr msg)), s2)
                       else (Inr (body resp),
                             s2\<lparr>localStorage :=
                                  saveToLocalCache setItem_throws t' key (body resp) (localStorage s2)\<rparr>))))"

definition customersQueryFn :: "bool \<Rightarrow> int \<Rightarrow> int \<Rightarrow> response \<Rightarrow> client \<Rightarrow> (thrown + json) \<times> client" where
  "customersQueryFn = cachedQueryFn ''customers'' ''/api/customers'' ''Erro ao carregar clientes''"

definition usersQueryFn :: "bool \<Rightarrow> int \<Rightarrow> int \<Rightarrow> response \<Rightarrow> client \<Rightarrow> (thrown + json) \<times> client" where
  "usersQueryFn = cachedQueryFn ''users'' ''/api/users'' ''Erro ao carregar usuarios''"

definition paymentMethodsQueryFn :: "bool \<Rightarrow> int \<Rightarrow> int \<Rightarrow> response \<Rightarrow> client \<Rightarrow> (thrown + json) \<times> client" where
  "paymentMethodsQueryFn =
     cachedQueryFn ''payment-methods'' ''/api/payment-methods'' ''Erro ao carregar formas de pagamento''"

definition serviceTypesQueryFn :: "bool \<Rightarrow> int \<Rightarrow> int \<Rightarrow> response \<Rightarrow> client \<Rightarrow> (thrown + json) \<times> client" where
  "serviceTypesQueryFn =
     cachedQueryFn ''service-types'' ''/api/service-types'' ''Erro ao carregar tipos de servico''"

definition serviceProvidersQueryFn :: "bool \<Rightarrow> int \<Rightarrow> int \<Rightarrow> response \<Rightarrow> client \<Rightarrow> (thrown + json) \<times> client" where
  "serviceProvidersQueryFn =
     cachedQueryFn ''service-providers'' ''/api/service-providers''
       ''Erro ao carregar prestadores de servico''"

subsection \<open>The mutations of the page\<close>

text \<open>\<open>useMutation\<close>: the mutation function runs; \<open>onSuccess\<close> follows a returned
  value, \<open>onError\<close> a thrown one. Every \<open>onSuccess\<close> invalidates the key
  \<open>/api/sales\<close>, for the user \<open>u\<close> the page is rendered for.\<close>

definition invalidateSales :: "user option \<Rightarrow> client \<Rightarrow> client" where
  "invalidateSales u s = invalidateQueries salesKey u s"

definition toast :: "toast \<Rightarrow> client \<Rightarrow> client" where
  "toast x s = s\<lparr>toasts := toasts s @ [x]\<rparr>"

definition fetch :: "string \<Rightarrow> string \<Rightarrow> json option \<Rightarrow> client \<Rightarrow> client" where
  "fetch m address b s =
     s\<lparr>requests := requests s @ [\<lparr>http_method = m, url = address, query = [], payload_sent = b\<rparr>]\<rparr>"

definition deleteMutation_mutationFn :: "int \<Rightarrow> response \<Rightarrow> client \<Rightarrow> (thrown + json) \<times> client" where
  "deleteMutation_mutationFn i resp s =
     (let s1 = fetch ''DELETE'' (''/api/sales/'' @ toString i) None s
      in if \<not> ok resp then (Inl (error_of (body resp) ''Erro ao excluir venda''), s1)
         else (Inr (JBool True), s1))"

definition deleteMutation_onSuccess :: "user option \<Rightarrow> client \<Rightarrow> client" where
  "deleteMutation_onSuccess u s =
     (toast ToastVendaExcluida (invalidateSales u s))\<lparr>deleteDialogOpen := False\<rparr>"

definition deleteMutation :: "user option \<Rightarrow> int \<Rightarrow> response \<Rightarrow> client \<Rightarrow> client" where
  "deleteMutation u i resp s =
     (case deleteMutation_mutationFn i resp s of
        (Inr v, s1) \<Rightarrow> deleteMutation_onSuccess u s1
      | (Inl x, s1) \<Rightarrow> toast (ToastErro ''Erro ao excluir venda'' x) s1)"

definition clearAllSalesMutation_mutationFn :: "response \<Rightarrow> client \<Rightarrow> (thrown + json) \<times> client" where
  "clearAllSalesMutation_mutationFn resp s =
     (let s1 = fetch ''DELETE'' ''/api/admin/clear-sales'' None s
      in if \<not> ok resp then (Inl (error_of (body resp) ''Erro ao limpar vendas''), s1)
         else (Inr (body resp), s1))"

text \<open>\<open>onSuccess\<close> of the bulk purge: the toast names \<open>data.count\<close>; on a \<open>null\<close> answer
  that access throws after the invalidation.\<close>

definition clearAllSalesMutation_onSuccess :: "user option \<Rightarrow> json \<Rightarrow> client \<Rightarrow> client" where
  "clearAllSalesMutation_onSuccess u d s =
     (let s1 = invalidateSales u s
      in case get_prop d ''count'' of
           Inl x \<Rightarrow> s1
         | Inr c \<Rightarrow> toast (ToastVendasRemovidas c) s1)"

definition clearAllSalesMutation :: "user option \<Rightarrow> response \<Rightarrow> client \<Rightarrow> client" where
  "clearAllSalesMutation u resp s =
     (case clearAllSalesMutation_mutationFn resp s of
        (Inr d, s1) \<Rightarrow> clearAllSalesMutation_onSuccess u d s1
      | (Inl x, s1) \<Rightarrow> toast (ToastErro ''Erro ao limpar vendas'' x) s1)"

text \<open>The resend goes through \<open>apiRequest\<close>, which is not in these sources: its outcome
  (a thrown value or a response) is an input.\<close>

definition resendSaleMutation_mutationFn ::
  "int \<Rightarrow> thrown + response \<Rightarrow> client \<Rightarrow> (thrown + json) \<times> client" where
  "resendSaleMutation_mutationFn i outcome s =
     (let s1 = fetch ''POST'' (''/api/sales/'' @ toString i @ ''/resend'')
                 (Some (JObj [(''notes'', JStr ''Venda corrigida e reenviada via botao rapido'')])) s
      in case outcome of
           Inl x \<Rightarrow> (Inl x, s1)
         | Inr resp \<Rightarrow> (Inr (body resp), s1))"

definition resendSaleMutation_onSuccess :: "user option \<Rightarrow> client \<Rightarrow> client" where
  "resendSaleMutation_onSuccess u s = toast ToastVendaReenviada (invalidateSales u s)"

definition resendSaleMutation :: "user option \<Rightarrow> int \<Rightarrow> thrown + response \<Rightarrow> client \<Rightarrow> client" where
  "resendSaleMutation u i outcome s =
     (case resendSaleMutation_mutationFn i outcome s of
        (Inr v, s1) \<Rightarrow> resendSaleMutation_onSuccess u s1
      | (Inl x, s1) \<Rightarrow> toast (ToastErro ''Erro ao reenviar venda'' x) s1)"

definition markAsPaidMutation_mutationFn :: "int \<Rightarrow> response \<Rightarrow> client \<Rightarrow> (thrown + json) \<times> client" where
  "markAsPaidMutation_mutationFn i resp s =
     (let s1 = fetch ''POST'' (''/api/sales/'' @ toString i @ ''/mark-paid'') (Some (JObj [])) s
      in if \<not> ok resp then (Inl (error_of (body resp) ''Erro ao marcar venda como paga''), s1)
         else (Inr (body resp), s1))"

definition markAsPaidMutation_onSuccess :: "user option \<Rightarrow> client \<Rightarrow> client" where
  "markAsPaidMutation_onSuccess u s = toast ToastPagamentoConfirmado (invalidateSales u s)"

definition markAsPaidMutation :: "user option \<Rightarrow> int \<Rightarrow> response \<Rightarrow> client \<Rightarrow> client" where
  "markAsPaidMutation u i resp s =
     (case markAsPaidMutation_mutationFn i resp s of
        (Inr v, s1) \<Rightarrow> markAsPaidMutation_onSuccess u s1
      | (Inl x, s1) \<Rightarrow> toast (ToastErro ''Erro ao confirmar pagamento'' x) s1)"

definition handleMarkAsPaid :: "user option \<Rightarrow> Sale \<Rightarrow> response \<Rightarrow> client \<Rightarrow> client" where
  "handleMarkAsPaid u sale resp s = markAsPaidMutation u (sale_id sale) resp s"

definition handleClearAllSales :: "client \<Rightarrow> client" where
  "handleClearAllSales s = s\<lparr>clearSalesDialogOpen := True\<rparr>"

definition handleConfirmClearAllSales :: "user option \<Rightarrow> response \<Rightarrow> client \<Rightarrow> client" where
  "handleConfirmClearAllSales u resp s =
     (clearAllSalesMutation u resp s)\<lparr>clearSalesDialogOpen := False\<rparr>"

text \<open>The effect on \<open>lastEvent\<close> of the WebSocket hook (\<open>None\<close>: no event yet);
  \<open>lastEvent?.type\<close> is undefined on \<open>null\<close>.\<close>

definition lastEvent_type :: "json option \<Rightarrow> jsval" where
  "lastEvent_type ev =
     (case ev of
        None \<Rightarrow> Undefined
      | Some v \<Rightarrow> (case get_prop v ''type'' of Inl x \<Rightarrow> Undefined | Inr t \<Rightarrow> t))"

definition salesUpdateEffect :: "user option \<Rightarrow> json option \<Rightarrow> client \<Rightarrow> client" where
  "salesUpdateEffect u lastEvent s =
     (if lastEvent_type lastEvent = Val (JStr ''sales_update'')
      then toast ToastAtualizacaoVendas (invalidateSales u s)
      else s)"

subsection \<open>What the page offers to a role\<close>

text \<open>The button that confirms a payment, on a sale's card.\<close>

definition markPaidButtonShown :: "user option \<Rightarrow> Sale \<Rightarrow> bool" where
  "markPaidButtonShown u sale =
     ((role_is u ''admin'' \<or> role_is u ''financeiro'')
      \<and> status sale = ''completed''
      \<and> financialStatus sale \<noteq> ''paid'')"

text \<open>
  The buttons of the page's header and toolbar that export, populate and clear. In
  the mobile layout (\<open>isMobile\<close>) there is the export menu alone. In the desktop
  layout the two export buttons are followed by the block of the administrator
  (populate, clear) and by the block of the role \<open>operacional\<close> (clear). Both clear
  buttons call \<open>handleClearAllSales\<close>.
\<close>

datatype button = ExportarPDF | ExportarExcel | PopularVendas | LimparVendas

definition toolbarButtons :: "bool \<Rightarrow> user option \<Rightarrow> button list" where
  "toolbarButtons isMobile u =
     (if isMobile then [ExportarPDF, ExportarExcel]
      else [ExportarPDF, ExportarExcel]
           @ (if role_is u ''admin'' then [PopularVendas, LimparVendas] else [])
           @ (if role_is u ''operacional'' then [LimparVendas] else []))"

definition clearSalesButtonShown :: "bool \<Rightarrow> user option \<Rightarrow> bool" where
  "clearSalesButtonShown isMobile u = (LimparVendas \<in> set (toolbarButtons isMobile u))"

section \<open>The operation dialog's mutation (temp_update_mutation_new.txt)\<close>

text \<open>
  The state the mutation function closes over. \<open>saleId\<close> and
  \<open>selectedServiceTypeId\<close> are absent (\<open>None\<close>) or numbers; both tests \<open>!x\<close> also
  reject the number 0.
\<close>

record dialog =
  saleId :: "int option"
  selectedServiceTypeId :: "int option"
  hasPrestadorParceiro :: bool
  selectedServiceProviderIds :: "int list"
  saleServiceProviders :: "int list"

definition msg_no_sale :: string where
  "msg_no_sale = ''ID da venda nao fornecido''"

definition msg_no_service_type :: string where
  "msg_no_service_type = ''E necessario selecionar um tipo de execucao''"

definition msg_no_provider :: string where
  "msg_no_provider = ''E necessario selecionar pelo menos um prestador parceiro''"

text \<open>
  The server and \<open>updateServiceProvidersMutation\<close> are not in these sources. They are
  inputs: \<open>post\<close> is the server's answer to
  \<open>POST /api/sales/{id}/update-execution-type\<close> with the service type, together with
  the stored execution data after it; \<open>mutateProviders\<close> is
  \<open>updateServiceProvidersMutation.mutateAsync()\<close>, which throws or returns, with the
  stored data after it. \<open>setSelectedServiceProviderIds([])\<close> takes effect with the
  next render, so the call that follows it still runs with the rendered state.
  The result is the mutation's outcome, the dialog's state and the stored data.
\<close>

definition updateExecutionTypeMutation_mutationFn ::
  "(int \<Rightarrow> int \<Rightarrow> 'db \<Rightarrow> response \<times> 'db) \<Rightarrow> (dialog \<Rightarrow> 'db \<Rightarrow> thrown option \<times> 'db)
     \<Rightarrow> dialog \<Rightarrow> 'db \<Rightarrow> (thrown + json) \<times> dialog \<times> 'db" where
  "updateExecutionTypeMutation_mutationFn post mutateProviders d db =
     (case saleId d of
        None \<Rightarrow> (Inl (Error (JStr msg_no_sale)), d, db)
      | Some sid \<Rightarrow>
          if sid = 0 then (Inl (Error (JStr msg_no_sale)), d, db)
          else
            (case selectedServiceTypeId d of
               None \<Rightarrow> (Inl (Error (JStr msg_no_service_type)), d, db)
             | Some ty \<Rightarrow>
                 if ty = 0 then (Inl (Error (JStr msg_no_service_type)), d, db)
                 else
                   (case post sid ty db of
                      (resp, db1) \<Rightarrow>
                        if \<not> ok resp
                        then (Inl (error_of (body resp) ''Erro ao atualizar tipo de execucao''), d, db1)
                        else if hasPrestadorParceiro d
                        then (if length (selectedServiceProviderIds d) = 0
                              then (Inl (Error (JStr msg_no_provider)), d, db1)
                              else (case mutateProviders d db1 of
                                      (Some x, db2) \<Rightarrow> (Inl x, d, db2)
                                    | (None, db2) \<Rightarrow> (Inr (body resp), d, db2)))
                        else (if length (saleServiceProviders d) > 0
                              then (case mutateProviders d db1 of
                                      (Some x, db2) \<Rightarrow>
                                        (Inl x, d\<lparr>selectedServiceProviderIds := []\<rparr>, db2)
                                    | (None, db2) \<Rightarrow>
                                        (Inr (body resp), d\<lparr>selectedServiceProviderIds := []\<rparr>, db2))
                              else (Inr (body resp), d, db1)))))"

text \<open>A server for the examples: it stores the service type and the providers it is
  sent; \<open>providers_fail\<close> makes the provider update fail.\<close>

record exec_data =
  serviceTypeId :: "int option"
  providerIds :: "int list"

definition store_type :: "int \<Rightarrow> int \<Rightarrow> exec_data \<Rightarrow> response \<times> exec_data" where
  "store_type sid ty db =
     (\<lparr>ok = True, body = JObj [(''id'', JNum sid), (''serviceTypeId'', JNum ty)]\<rparr>,
      db\<lparr>serviceTypeId := Some ty\<rparr>)"

definition store_providers :: "bool \<Rightarrow> dialog \<Rightarrow> exec_data \<Rightarrow> thrown option \<times> exec_data" where
  "store_providers providers_fail d db =
     (if providers_fail then (Some (Error (JStr ''Erro ao atualizar prestadores'')), db)
      else (None, db\<lparr>providerIds := selectedServiceProviderIds d\<rparr>))"

section \<open>The server's gateway (not in these sources)\<close>

text \<open>
  The sources hold no server route. The operations of the gateway that the claims
  about payments, scoped pages and the bulk purge rest on are written from the
  specification's sections 3, 4.1, 4.2, 4.5 and 6.
\<close>

datatype execution_status = pending | in_progress | returned | completed | canceled | corrected

datatype financial_status = unpaid | paid

datatype actor_role = seller | operator | supervisor | finance | admin

datatype rejection = TransitionNotAllowed | ForbiddenActor | PreconditionFailed string

record order_state =
  execution :: execution_status
  financial :: financial_status

text \<open>
  Modelled from the spec: the validator's row for the payment (the server's mark-paid
  route is missing from the sources). The edge exists only from an order that is
  completed and unpaid; any other request is \<open>TransitionNotAllowed\<close>. On that edge
  the roles finance and admin are accepted and the financial status becomes paid; any
  other role is \<open>ForbiddenActor\<close>.
\<close>

definition validateMarkPaid :: "order_state \<Rightarrow> actor_role \<Rightarrow> rejection + order_state" where
  "validateMarkPaid ord r =
     (if execution ord = completed \<and> financial ord = unpaid
      then (if r = finance \<or> r = admin then Inr (ord\<lparr>financial := paid\<rparr>)
            else Inl ForbiddenActor)
      else Inl TransitionNotAllowed)"

text \<open>
  Modelled from the spec: the scope of a page query (the server's route for the sales
  list is missing from the sources). The scope comes from the authenticated actor: a
  seller (role \<open>vendedor\<close>) is scoped to the orders that are the seller's own.
\<close>

datatype scope = Unscoped | Own int

definition scope_of :: "user \<Rightarrow> scope" where
  "scope_of u = (if role u = ''vendedor'' then Own (user_id u) else Unscoped)"

definition in_scope :: "scope \<Rightarrow> Sale \<Rightarrow> bool" where
  "in_scope sc ord = (case sc of Unscoped \<Rightarrow> True | Own a \<Rightarrow> sellerId ord = a)"

text \<open>
  Modelled from the spec: \<open>queryPage(filter, sort, page, pageSize, scope)\<close> (the
  server's route is missing from the sources). The rows are those that pass the
  filter and the scope; they are ordered by the sort key, ties by ascending id; the
  page is cut from that order; the total counts the same rows.
\<close>

definition queryPage ::
  "(Sale \<Rightarrow> bool) \<Rightarrow> (Sale \<Rightarrow> 'k::linorder) \<Rightarrow> bool \<Rightarrow> nat \<Rightarrow> nat \<Rightarrow> scope \<Rightarrow> Sale list
     \<Rightarrow> Sale list \<times> nat" where
  "queryPage flt key descending pg pageSize sc db =
     (let rows = filter (\<lambda>ord. flt ord \<and> in_scope sc ord) db;
          ordered = (if descending
                     then rev (sort_key (\<lambda>ord. (key ord, - sale_id ord)) rows)
                     else sort_key (\<lambda>ord. (key ord, sale_id ord)) rows)
      in (take pageSize (drop ((pg - 1) * pageSize) ordered), length rows))"

text \<open>
  Modelled from the spec: the seller filter a request may carry (\<open>sellerId\<close>), as the
  gateway reads it for the filter of \<open>queryPage\<close>.
\<close>

definition sellerParamFilter :: "(string \<times> string) list \<Rightarrow> Sale \<Rightarrow> bool" where
  "sellerParamFilter params ord =
     (case map_of params ''sellerId'' of
        None \<Rightarrow> True
      | Some v \<Rightarrow> toString (sellerId ord) = v)"

text \<open>
  Modelled from the spec: \<open>DELETE /admin/clear-orders\<close>, the bulk purge (the server's
  route is missing from the sources). It is for the admin role only; it truncates the
  collection of orders and answers with the count of the orders it removed. Any other
  actor is refused and the collection stays.
\<close>

definition clearOrdersRoute :: "user option \<Rightarrow> Sale list \<Rightarrow> response \<times> Sale list" where
  "clearOrdersRoute actor db =
     (if role_is actor ''admin''
      then (\<lparr>ok = True, body = JObj [(''count'', JNum (int (length db)))]\<rparr>, [])
      else (\<lparr>ok = False, body = JObj [(''message'', JStr ''ForbiddenActor'')]\<rparr>, db))"

section \<open>Properties of the WebSocket server\<close>

lemma ws_send_fields:
  "ws_send e w m s = Inr s' \<Longrightarrow>
     readyState s' = readyState s \<and> connections s' = connections s \<and> logs s' = logs s
     \<and> handlers s' = handlers s \<and> intervals s' = intervals s \<and> sent s' = sent s @ [(w, m)]"
  by (auto simp: ws_send_def split: if_splits)

lemma send_each_all:
  "\<forall>c \<in> set cs. readyState s c = OPEN \<longrightarrow> \<not> send_throws e c \<Longrightarrow>
   send_each e m cs s =
     (None, s\<lparr>sent := sent s @ map (\<lambda>c. (c, m)) (filter (\<lambda>c. readyState s c = OPEN) cs)\<rparr>)"
proof (induction cs arbitrary: s)
  case Nil
  then show ?case by simp
next
  case (Cons c cs)
  show ?case
  proof (cases "readyState s c = OPEN")
    case True
    with Cons.prems have nt: "\<not> send_throws e c" by simp
    let ?s' = "s\<lparr>sent := sent s @ [(c, m)]\<rparr>"
    have "\<forall>c \<in> set cs. readyState ?s' c = OPEN \<longrightarrow> \<not> send_throws e c"
      using Cons.prems by simp
    from Cons.IH [OF this] True nt show ?thesis
      by (simp add: ws_send_def)
  next
    case False
    with Cons show ?thesis by simp
  qed
qed

lemma on_message_connections: "connections (on_message e w m s) = connections s"
  by (simp add: on_message_def log_def ws_send_def Let_def split: option.splits sum.splits)

lemma on_message_readyState: "readyState (on_message e w m s) = readyState s"
  by (simp add: on_message_def log_def ws_send_def Let_def split: option.splits sum.splits)

lemma on_interval_connections: "connections (on_interval e w s) = connections s"
  by (simp add: on_interval_def log_def ws_send_def ws_terminate_def clearInterval_def Let_def split: option.splits sum.splits)

lemma on_connection_connections: "connections (snd (on_connection e w s)) = connections s @ [w]"
  by (simp add: on_connection_def log_def ws_send_def Let_def split: option.splits sum.splits)

lemma on_close_connections: "connections (on_close w s) = remove1 w (connections s)"
  by (simp add: on_close_def log_def clearInterval_def Let_def remove1_idem)

lemma step_keeps:
  "ev \<noteq> TransportClosed w \<Longrightarrow> w \<in> set (connections s) \<Longrightarrow> w \<in> set (connections (step e ev s))"
  by (cases ev) (auto simp: on_message_connections on_interval_connections on_connection_connections
       on_close_connections Let_def)

lemma run_keeps:
  "TransportClosed w \<notin> set evs \<Longrightarrow> w \<in> set (connections s) \<Longrightarrow> w \<in> set (connections (run e evs s))"
proof (induction evs arbitrary: s)
  case Nil
  then show ?case by simp
next
  case (Cons ev evs)
  from Cons.prems have "ev \<noteq> TransportClosed w" and "TransportClosed w \<notin> set evs" by auto
  with Cons.prems(2) Cons.IH step_keeps show ?case by simp
qed

text \<open>
  C10. A text that is not valid JSON is logged and dropped: the \<open>message\<close> handler
  only appends the error to the log. For every message, the handler leaves the
  connection set, the socket's state, the handlers and the timers as they were; it
  sends at most one reply, only when the parsed value's \<open>type\<close> is the string
  \<open>ping\<close> (and \<open>ws.send\<close> does not throw), and that reply is the \<open>pong\<close> event.
\<close>

theorem on_message_invalid_json:
  "on_message e w None s = s\<lparr>logs := logs s @ [LogProcessError SyntaxError]\<rparr>
   \<and> connections (on_message e w m s) = connections s
   \<and> readyState (on_message e w m s) = readyState s
   \<and> handlers (on_message e w m s) = handlers s
   \<and> intervals (on_message e w m s) = intervals s
   \<and> sent (on_message e w m s) =
       sent s @ (if (\<exists>ev. m = Some ev \<and> get_prop ev ''type'' = Inr (Val (JStr ''ping'')))
                    \<and> \<not> send_throws e w
                 then [(w, event_json (pongEvent (now e)))] else [])
   \<and> type (pongEvent (now e)) = ''pong''"
  by (auto simp: on_message_def log_def ws_send_def Let_def pongEvent_def split: option.splits sum.splits)

text \<open>C10 at one socket: an unparsable text, then a ping.\<close>

theorem on_message_invalid_json_witness:
  "on_message \<lparr>now = 1000, send_throws = (\<lambda>_. False)\<rparr> 1 None
      \<lparr>connections = [1], readyState = (\<lambda>_. OPEN), handlers = {1}, intervals = {1}, sent = [], logs = []\<rparr>
    = \<lparr>connections = [1], readyState = (\<lambda>_. OPEN), handlers = {1}, intervals = {1}, sent = [],
        logs = [LogProcessError SyntaxError]\<rparr>
   \<and> sent (on_message \<lparr>now = 1000, send_throws = (\<lambda>_. False)\<rparr> 1 (Some (JObj [(''type'', JStr ''ping'')]))
      \<lparr>connections = [1], readyState = (\<lambda>_. OPEN), handlers = {1}, intervals = {1}, sent = [], logs = []\<rparr>)
     = [(1, JObj [(''type'', JStr ''pong''), (''payload'', JObj [(''message'', JStr ''Pong resposta ao ping'')]),
                  (''timestamp'', JNum 1000)])]"
  using on_message_invalid_json [of "\<lparr>now = 1000, send_throws = (\<lambda>_. False)\<rparr>" 1
      "\<lparr>connections = [1], readyState = (\<lambda>_. OPEN), handlers = {1}, intervals = {1}, sent = [], logs = []\<rparr>"
      "Some (JObj [(''type'', JStr ''ping'')])"]
  by (simp add: event_json_def pongEvent_def)

text \<open>
  C5, as the code has it. One call of \<open>notifySalesUpdate\<close> logs the broadcast and
  hands one and the same message to \<open>send\<close> once for every entry of \<open>connections\<close>
  whose socket is open, in the order of the array, and to no other socket, provided
  no \<open>send\<close> on an open socket throws. The message has type \<open>sales_update\<close> and a
  payload holding the timestamp alone.
\<close>

theorem notifySalesUpdate_broadcast:
  assumes "\<forall>c \<in> set (connections s). readyState s c = OPEN \<longrightarrow> \<not> send_throws e c"
  shows "notifySalesUpdate e s =
           (None, s\<lparr>logs := logs s @ [LogBroadcast ''sales_update''],
                    sent := sent s @ map (\<lambda>c. (c, JObj [(''type'', JStr ''sales_update''),
                                                         (''payload'', JObj [(''timestamp'', JNum (now e))])]))
                                         (filter (\<lambda>c. readyState s c = OPEN) (connections s))\<rparr>)"
proof -
  let ?s1 = "log (LogBroadcast ''sales_update'') s"
  have "\<forall>c \<in> set (connections ?s1). readyState ?s1 c = OPEN \<longrightarrow> \<not> send_throws e c"
    using assms by (simp add: log_def)
  from send_each_all [OF this] show ?thesis
    by (simp add: notifySalesUpdate_def broadcastEvent_def event_json_def log_def Let_def)
qed

text \<open>C5 at three connections, the second closed.\<close>

theorem notifySalesUpdate_broadcast_witness:
  "notifySalesUpdate \<lparr>now = 1000, send_throws = (\<lambda>_. False)\<rparr>
      \<lparr>connections = [1, 2, 3], readyState = (\<lambda>c. if c = 2 then CLOSED else OPEN),
       handlers = {1, 2, 3}, intervals = {1, 3}, sent = [], logs = []\<rparr>
   = (None,
      \<lparr>connections = [1, 2, 3], readyState = (\<lambda>c. if c = 2 then CLOSED else OPEN),
       handlers = {1, 2, 3}, intervals = {1, 3},
       sent = [(1, JObj [(''type'', JStr ''sales_update''), (''payload'', JObj [(''timestamp'', JNum 1000)])]),
               (3, JObj [(''type'', JStr ''sales_update''), (''payload'', JObj [(''timestamp'', JNum 1000)])])],
       logs = [LogBroadcast ''sales_update'']\<rparr>)"
  using notifySalesUpdate_broadcast [of
      "\<lparr>connections = [1, 2, 3], readyState = (\<lambda>c. if c = 2 then CLOSED else OPEN),
       handlers = {1, 2, 3}, intervals = {1, 3}, sent = [], logs = []\<rparr>"
      "\<lparr>now = 1000, send_throws = (\<lambda>_. False)\<rparr>"]
  by simp

text \<open>
  C5 as stated fails: the event sent is not
  \<open>{ type: "orders_changed", timestamp }\<close>; its type is \<open>sales_update\<close> and the
  timestamp sits inside \<open>payload\<close>.
\<close>

theorem notifySalesUpdate_type_counterexample:
  "sent (snd (notifySalesUpdate \<lparr>now = 1000, send_throws = (\<lambda>_. False)\<rparr>
      \<lparr>connections = [1], readyState = (\<lambda>_. OPEN), handlers = {1}, intervals = {1}, sent = [], logs = []\<rparr>))
   = [(1, JObj [(''type'', JStr ''sales_update''), (''payload'', JObj [(''timestamp'', JNum 1000)])])]
   \<and> sent (snd (notifySalesUpdate \<lparr>now = 1000, send_throws = (\<lambda>_. False)\<rparr>
      \<lparr>connections = [1], readyState = (\<lambda>_. OPEN), handlers = {1}, intervals = {1}, sent = [], logs = []\<rparr>))
   \<noteq> [(1, event_json \<lparr>type = ''orders_changed'', payload = None, timestamp = Some 1000\<rparr>)]"
  by (simp add: notifySalesUpdate_def broadcastEvent_def event_json_def log_def ws_send_def Let_def)

text \<open>
  C6, as the code has it. The timer's period is 15000 ms. When the timer fires on an
  open socket whose \<open>send\<close> does not throw, one ping is sent and nothing else
  changes; on a socket that is not open nothing is sent. The timer never changes
  \<open>connections\<close>. Whatever happens (connections, messages or their absence,
  timers), a registered connection stays in \<open>connections\<close> as long as its transport
  has not reported closed; when it does, the \<open>close\<close> handlers remove it and stop its
  timer.
\<close>

theorem heartbeat_and_pruning:
  "ping_interval_ms = 15000
   \<and> (readyState s w = OPEN \<and> \<not> send_throws e w \<longrightarrow>
        on_interval e w s = s\<lparr>sent := sent s @ [(w, event_json (pingEvent (now e)))]\<rparr>)
   \<and> (readyState s w \<noteq> OPEN \<longrightarrow> sent (on_interval e w s) = sent s)
   \<and> connections (on_interval e w s) = connections s
   \<and> (TransportClosed w \<notin> set evs \<and> w \<in> set (connections s) \<longrightarrow>
        w \<in> set (connections (run e evs s)))
   \<and> (w \<in> handlers s \<longrightarrow>
        connections (step e (TransportClosed w) s) = remove1 w (connections s)
        \<and> w \<notin> intervals (step e (TransportClosed w) s))"
proof (intro conjI impI)
  show "ping_interval_ms = 15000" by (simp add: ping_interval_ms_def)
next
  assume "readyState s w = OPEN \<and> \<not> send_throws e w"
  then show "on_interval e w s = s\<lparr>sent := sent s @ [(w, event_json (pingEvent (now e)))]\<rparr>"
    by (simp add: on_interval_def ws_send_def Let_def)
next
  assume "readyState s w \<noteq> OPEN"
  then show "sent (on_interval e w s) = sent s"
    by (simp add: on_interval_def clearInterval_def Let_def)
next
  show "connections (on_interval e w s) = connections s" by (rule on_interval_connections)
next
  assume "TransportClosed w \<notin> set evs \<and> w \<in> set (connections s)"
  then show "w \<in> set (connections (run e evs s))" by (simp add: run_keeps)
next
  assume "w \<in> handlers s"
  then show "connections (step e (TransportClosed w) s) = remove1 w (connections s)"
    by (simp add: on_close_connections Let_def)
next
  assume "w \<in> handlers s"
  then show "w \<notin> intervals (step e (TransportClosed w) s)"
    by (simp add: on_close_def clearInterval_def log_def Let_def)
qed

text \<open>C6 at one open connection.\<close>

theorem heartbeat_and_pruning_witness:
  "run \<lparr>now = 1000, send_throws = (\<lambda>_. False)\<rparr> [Timer 1, Message 1 None, Timer 1]
      \<lparr>connections = [1], readyState = (\<lambda>_. OPEN), handlers = {1}, intervals = {1}, sent = [], logs = []\<rparr>
    = \<lparr>connections = [1], readyState = (\<lambda>_. OPEN), handlers = {1}, intervals = {1},
       sent = [(1, event_json (pingEvent 1000)), (1, event_json (pingEvent 1000))],
       logs = [LogProcessError SyntaxError]\<rparr>
   \<and> on_interval \<lparr>now = 1000, send_throws = (\<lambda>_. False)\<rparr> 1
      \<lparr>connections = [1], readyState = (\<lambda>_. OPEN), handlers = {1}, intervals = {1}, sent = [], logs = []\<rparr>
    = \<lparr>connections = [1], readyState = (\<lambda>_. OPEN), handlers = {1}, intervals = {1},
       sent = [(1, event_json (pingEvent 1000))], logs = []\<rparr>
   \<and> connections (step \<lparr>now = 1000, send_throws = (\<lambda>_. False)\<rparr> (TransportClosed 1)
      \<lparr>connections = [1], readyState = (\<lambda>_. OPEN), handlers = {1}, intervals = {1}, sent = [], logs = []\<rparr>) = []"
  using heartbeat_and_pruning [of
      "\<lparr>connections = [1], readyState = (\<lambda>_. OPEN), handlers = {1}, intervals = {1}, sent = [], logs = []\<rparr>"
      1 "\<lparr>now = 1000, send_throws = (\<lambda>_. False)\<rparr>" "[Timer 1, Message 1 None, Timer 1]"]
  by (simp add: on_interval_def on_message_def ws_send_def log_def Let_def)

text \<open>
  C6 as stated fails: a client connects and never answers; after the welcome and three
  probe cycles it is still in \<open>connections\<close> and is still being probed.
\<close>

theorem silent_connection_not_pruned_counterexample:
  "connections (run \<lparr>now = 1000, send_throws = (\<lambda>_. False)\<rparr> [Connection 1, Timer 1, Timer 1, Timer 1]
      \<lparr>connections = [], readyState = (\<lambda>_. CLOSED), handlers = {}, intervals = {}, sent = [], logs = []\<rparr>) = [1]
   \<and> map fst (sent (run \<lparr>now = 1000, send_throws = (\<lambda>_. False)\<rparr> [Connection 1, Timer 1, Timer 1, Timer 1]
      \<lparr>connections = [], readyState = (\<lambda>_. CLOSED), handlers = {}, intervals = {}, sent = [], logs = []\<rparr>))
     = [1, 1, 1, 1]"
  by (simp add: on_connection_def on_interval_def ws_send_def log_def Let_def)

section \<open>Properties of the sales page\<close>

lemma toString_1: "toString 1 = ''1''"
  by (simp add: toString_def digits.simps)

lemma salesQueryParams_page:
  "map_of (salesQueryParams u s) ''page'' = Some (toString (page s))"
  by (simp add: salesQueryParams_def)

lemma salesQueryKey_match: "partialMatchKey (salesQueryKey u s) salesKey"
  by (simp add: partialMatchKey_def salesQueryKey_def salesKey_def)


lemma state_after_filter_change:
  "page (handleSellerFilterChange u v s) = 1
   \<and> selectedSellerId (handleSellerFilterChange u v s) = v
   \<and> page (handleDateRangeChange u r s) = 1
   \<and> dateRange (handleDateRangeChange u r s) = r
   \<and> page (onPageSizeChange n s) = 1
   \<and> limit (onPageSizeChange n s) = n
   \<and> requests (onPageSizeChange n s) = requests s"
  by (simp add: handleSellerFilterChange_def handleDateRangeChange_def onPageSizeChange_def
        invalidateQueries_def)

lemma filter_change_refetch:
  "requests (handleSellerFilterChange u v s) = requests s @ [salesRequest u s]"
  "requests (handleDateRangeChange u r s) = requests s @ [salesRequest u s]"
  by (simp_all add: handleSellerFilterChange_def handleDateRangeChange_def invalidateQueries_def
        salesQueryKey_match)

lemma query_after_filter_change:
  "map_of (salesQueryParams u (handleSellerFilterChange u v s)) ''page'' = Some ''1''"
  "map_of (salesQueryParams u (handleDateRangeChange u r s)) ''page'' = Some ''1''"
  "map_of (salesQueryParams u (onPageSizeChange n s)) ''page'' = Some ''1''"
  by (simp_all add: salesQueryParams_page toString_1 state_after_filter_change)

text \<open>
  C9 at the input where the code departs from it: on page 4, with no filter, the
  seller filter is set to seller 9. The state of the next render has the filter and
  page 1, but the handler has already refetched the mounted query: the request it
  sends asks for page 4 and carries no seller filter.
\<close>

theorem seller_filter_change_refetches_old_page:
  "requests (handleSellerFilterChange (Some \<lparr>user_id = 1, role = ''admin''\<rparr>) ''9''
              (initial_client\<lparr>page := 4\<rparr>))
     = [\<lparr>http_method = ''GET'', url = ''/api/sales'',
         query = [(''page'', ''4''), (''limit'', ''15''), (''sortField'', ''date''),
                  (''sortDirection'', ''desc'')],
         payload_sent = None\<rparr>]
   \<and> page (handleSellerFilterChange (Some \<lparr>user_id = 1, role = ''admin''\<rparr>) ''9''
              (initial_client\<lparr>page := 4\<rparr>)) = 1
   \<and> selectedSellerId (handleSellerFilterChange (Some \<lparr>user_id = 1, role = ''admin''\<rparr>) ''9''
              (initial_client\<lparr>page := 4\<rparr>)) = ''9''"
proof -
  have q: "salesQueryParams (Some \<lparr>user_id = 1, role = ''admin''\<rparr>) (initial_client\<lparr>page := 4\<rparr>)
             = [(''page'', ''4''), (''limit'', ''15''), (''sortField'', ''date''),
                (''sortDirection'', ''desc'')]"
    by (simp add: salesQueryParams_def initial_client_def toString_def digits.simps)
  have r: "requests (initial_client\<lparr>page := 4\<rparr>) = []"
    by (simp add: initial_client_def)
  show ?thesis
    by (simp add: filter_change_refetch state_after_filter_change salesRequest_def q r)
qed

lemma date_range_change_refetches_old_page:
  "requests (handleDateRangeChange None (Some \<lparr>from_date = Some ''2025-05-01T03:00:00.000Z'', to_date = None\<rparr>)
              (initial_client\<lparr>page := 4\<rparr>))
     = [\<lparr>http_method = ''GET'', url = ''/api/sales'',
         query = [(''page'', ''4''), (''limit'', ''15''), (''sortField'', ''date''),
                  (''sortDirection'', ''desc'')],
         payload_sent = None\<rparr>]"
proof -
  have q: "salesQueryParams None (initial_client\<lparr>page := 4\<rparr>)
             = [(''page'', ''4''), (''limit'', ''15''), (''sortField'', ''date''),
                (''sortDirection'', ''desc'')]"
    by (simp add: salesQueryParams_def initial_client_def toString_def digits.simps)
  have r: "requests (initial_client\<lparr>page := 4\<rparr>) = []"
    by (simp add: initial_client_def)
  show ?thesis
    by (simp add: filter_change_refetch salesRequest_def q r)
qed

lemma salesQueryFn_localStorage:
  "localStorage (snd (salesQueryFn u resp s)) = localStorage s"
  by (simp add: salesQueryFn_def Let_def split: sum.splits)

lemma cachedQueryFn_fresh:
  assumes "localStorage s (''cache_'' @ key) = Some (Item d ts)"
    and "t - ts \<le> 3600000" and "truthy d"
  shows "cachedQueryFn key address msg st t t' resp s = (Inr d, s)"
  using assms
  by (simp add: cachedQueryFn_def getFromLocalCache_def localStorageCacheTime_def Let_def)

lemma cachedQueryFn_expired:
  assumes "localStorage s (''cache_'' @ key) = Some (Item d ts)"
    and "t - ts > 3600000"
  shows "getFromLocalCache t key (localStorage s)
           = (JNull, (localStorage s)((''cache_'' @ key) := None))"
    and "cachedQueryFn key address msg st t t' resp s =
           (if ok resp
            then (Inr (body resp),
                  s\<lparr>localStorage :=
                       saveToLocalCache st t' key (body resp)
                         ((localStorage s)((''cache_'' @ key) := None)),
                    requests := requests s
                       @ [\<lparr>http_method = ''GET'', url = address, query = [], payload_sent = None\<rparr>]\<rparr>)
            else (Inl (Error (JStr msg)),
                  s\<lparr>localStorage := (localStorage s)((''cache_'' @ key) := None),
                    requests := requests s
                       @ [\<lparr>http_method = ''GET'', url = address, query = [], payload_sent = None\<rparr>]\<rparr>))"
  using assms
  by (simp_all add: cachedQueryFn_def getFromLocalCache_def localStorageCacheTime_def Let_def)

text \<open>
  C7, as the code has it. The sales query is fresh for 30000 ms and its query
  function leaves \<open>localStorage\<close> as it was. Each of the five reference queries is
  \<open>cachedQueryFn\<close> at its own key. An entry that is at most one hour old, with
  truthy data (any array is), is the answer: the state is unchanged, no request is
  made. An entry that is more than one hour old is removed, one request is made, a
  successful answer is returned and, unless \<open>setItem\<close> throws, stored with the time
  of the write.
\<close>

theorem cache_tiers:
  "salesStaleTime = 30000
   \<and> localStorage (snd (salesQueryFn u resp s)) = localStorage s
   \<and> customersQueryFn = cachedQueryFn ''customers'' ''/api/customers'' ''Erro ao carregar clientes''
   \<and> usersQueryFn = cachedQueryFn ''users'' ''/api/users'' ''Erro ao carregar usuarios''
   \<and> paymentMethodsQueryFn =
       cachedQueryFn ''payment-methods'' ''/api/payment-methods'' ''Erro ao carregar formas de pagamento''
   \<and> serviceTypesQueryFn =
       cachedQueryFn ''service-types'' ''/api/service-types'' ''Erro ao carregar tipos de servico''
   \<and> serviceProvidersQueryFn =
       cachedQueryFn ''service-providers'' ''/api/service-providers''
         ''Erro ao carregar prestadores de servico''
   \<and> (localStorage s (''cache_'' @ key) = Some (Item d ts) \<and> t - ts \<le> 60 * 60 * 1000 \<and> truthy d
        \<longrightarrow> cachedQueryFn key address msg st t t' resp s = (Inr d, s))
   \<and> (localStorage s (''cache_'' @ key) = Some (Item d ts) \<and> t - ts > 60 * 60 * 1000
        \<longrightarrow> fst (getFromLocalCache t key (localStorage s)) = JNull
            \<and> snd (getFromLocalCache t key (localStorage s)) (''cache_'' @ key) = None
            \<and> requests (snd (cachedQueryFn key address msg st t t' resp s)) =
                requests s @ [\<lparr>http_method = ''GET'', url = address, query = [], payload_sent = None\<rparr>]
            \<and> (ok resp \<longrightarrow> fst (cachedQueryFn key address msg st t t' resp s) = Inr (body resp))
            \<and> (ok resp \<and> \<not> st \<longrightarrow>
                  localStorage (snd (cachedQueryFn key address msg st t t' resp s)) (''cache_'' @ key)
                    = Some (Item (body resp) t')))"
proof -
  have fresh: "localStorage s (''cache_'' @ key) = Some (Item d ts) \<and> t - ts \<le> 60 * 60 * 1000 \<and> truthy d
        \<longrightarrow> cachedQueryFn key address msg st t t' resp s = (Inr d, s)"
    by (simp add: cachedQueryFn_fresh)
  have expired: "localStorage s (''cache_'' @ key) = Some (Item d ts) \<and> t - ts > 60 * 60 * 1000
        \<longrightarrow> fst (getFromLocalCache t key (localStorage s)) = JNull
            \<and> snd (getFromLocalCache t key (localStorage s)) (''cache_'' @ key) = None
            \<and> requests (snd (cachedQueryFn key address msg st t t' resp s)) =
                requests s @ [\<lparr>http_method = ''GET'', url = address, query = [], payload_sent = None\<rparr>]
            \<and> (ok resp \<longrightarrow> fst (cachedQueryFn key address msg st t t' resp s) = Inr (body resp))
            \<and> (ok resp \<and> \<not> st \<longrightarrow>
                  localStorage (snd (cachedQueryFn key address msg st t t' resp s)) (''cache_'' @ key)
                    = Some (Item (body resp) t'))"
  proof
    assume a: "localStorage s (''cache_'' @ key) = Some (Item d ts) \<and> t - ts > 60 * 60 * 1000"
    then have e: "localStorage s (''cache_'' @ key) = Some (Item d ts)" "t - ts > 3600000"
      by simp_all
    note g = cachedQueryFn_expired(1) [OF e]
    note q = cachedQueryFn_expired(2) [OF e, of address msg st t' resp]
    show "fst (getFromLocalCache t key (localStorage s)) = JNull
            \<and> snd (getFromLocalCache t key (localStorage s)) (''cache_'' @ key) = None
            \<and> requests (snd (cachedQueryFn key address msg st t t' resp s)) =
                requests s @ [\<lparr>http_method = ''GET'', url = address, query = [], payload_sent = None\<rparr>]
            \<and> (ok resp \<longrightarrow> fst (cachedQueryFn key address msg st t t' resp s) = Inr (body resp))
            \<and> (ok resp \<and> \<not> st \<longrightarrow>
                  localStorage (snd (cachedQueryFn key address msg st t t' resp s)) (''cache_'' @ key)
                    = Some (Item (body resp) t'))"
      unfolding g q by (simp add: saveToLocalCache_def)
  qed
  show ?thesis
    using fresh expired
    by (simp only: salesStaleTime_def salesQueryFn_localStorage customersQueryFn_def usersQueryFn_def
          paymentMethodsQueryFn_def serviceTypesQueryFn_def serviceProvidersQueryFn_def
          simp_thms)
qed

text \<open>C7 at an entry written at time 0, read just before and just after one hour.\<close>

theorem cache_tiers_witness:
  "customersQueryFn False 3599000 3599500 \<lparr>ok = True, body = JArr [JNum 2]\<rparr>
      (initial_client\<lparr>localStorage := [''cache_customers'' \<mapsto> Item (JArr [JNum 1]) 0]\<rparr>)
    = (Inr (JArr [JNum 1]),
       initial_client\<lparr>localStorage := [''cache_customers'' \<mapsto> Item (JArr [JNum 1]) 0]\<rparr>)
   \<and> fst (customersQueryFn False 3600001 3600500 \<lparr>ok = True, body = JArr [JNum 2]\<rparr>
      (initial_client\<lparr>localStorage := [''cache_customers'' \<mapsto> Item (JArr [JNum 1]) 0]\<rparr>))
    = Inr (JArr [JNum 2])
   \<and> localStorage (snd (customersQueryFn False 3600001 3600500 \<lparr>ok = True, body = JArr [JNum 2]\<rparr>
      (initial_client\<lparr>localStorage := [''cache_customers'' \<mapsto> Item (JArr [JNum 1]) 0]\<rparr>)))
        ''cache_customers''
    = Some (Item (JArr [JNum 2]) 3600500)"
proof -
  let ?s = "initial_client\<lparr>localStorage := [''cache_customers'' \<mapsto> Item (JArr [JNum 1]) 0]\<rparr>"
  let ?r = "\<lparr>ok = True, body = JArr [JNum 2]\<rparr>"
  have k: "''cache_'' @ ''customers'' = ''cache_customers''" by simp
  have p: "localStorage ?s (''cache_'' @ ''customers'') = Some (Item (JArr [JNum 1]) 0)"
    unfolding k by simp
  have young: "(3599000::int) - 0 \<le> 60 * 60 * 1000" and old: "(3600001::int) - 0 > 60 * 60 * 1000"
    by simp_all
  have tr: "truthy (JArr [JNum 1])" by simp
  have okr: "ok ?r" and b: "body ?r = JArr [JNum 2]" by simp_all
  have c: "customersQueryFn = cachedQueryFn ''customers'' ''/api/customers'' ''Erro ao carregar clientes''"
    using cache_tiers by blast
  from cache_tiers [of None ?r ?s "''customers''" "JArr [JNum 1]" 0 3599000 "''/api/customers''"
      "''Erro ao carregar clientes''" False 3599500] p young tr
  have 1: "cachedQueryFn ''customers'' ''/api/customers'' ''Erro ao carregar clientes'' False
             3599000 3599500 ?r ?s = (Inr (JArr [JNum 1]), ?s)"
    by blast
  from cache_tiers [of None ?r ?s "''customers''" "JArr [JNum 1]" 0 3600001 "''/api/customers''"
      "''Erro ao carregar clientes''" False 3600500] p old okr
  have 2: "fst (cachedQueryFn ''customers'' ''/api/customers'' ''Erro ao carregar clientes'' False
             3600001 3600500 ?r ?s) = Inr (body ?r)"
    and 3: "localStorage (snd (cachedQueryFn ''customers'' ''/api/customers'' ''Erro ao carregar clientes''
             False 3600001 3600500 ?r ?s)) (''cache_'' @ ''customers'') = Some (Item (body ?r) 3600500)"
    by blast+
  show ?thesis
    unfolding c using 1 2 3 unfolding k b by blast
qed

text \<open>
  C7 as stated fails at the boundary: an entry that is exactly one hour old (at least
  one hour old) is served from \<open>localStorage\<close>; it is not removed and nothing is
  fetched.
\<close>

theorem entry_one_hour_old_counterexample:
  "customersQueryFn False 3600000 3600500 \<lparr>ok = True, body = JArr [JNum 2]\<rparr>
      (initial_client\<lparr>localStorage := [''cache_customers'' \<mapsto> Item (JArr [JNum 1]) 0]\<rparr>)
    = (Inr (JArr [JNum 1]),
       initial_client\<lparr>localStorage := [''cache_customers'' \<mapsto> Item (JArr [JNum 1]) 0]\<rparr>)
   \<and> (3600000::int) - 0 \<ge> 60 * 60 * 1000"
proof -
  have g: "getFromLocalCache 3600000 ''customers'' [''cache_customers'' \<mapsto> Item (JArr [JNum 1]) 0]
             = (JArr [JNum 1], [''cache_customers'' \<mapsto> Item (JArr [JNum 1]) 0])"
    by (simp add: getFromLocalCache_def localStorageCacheTime_def)
  show ?thesis
    unfolding customersQueryFn_def cachedQueryFn_def
    by (simp add: g)
qed


lemma markInvalidated_marks:
  "qc k = Some en \<Longrightarrow> partialMatchKey k key \<Longrightarrow>
     markInvalidated key qc k = Some (en\<lparr>isInvalidated := True\<rparr>)"
  by (simp add: markInvalidated_def)

lemma readQuery_invalidated:
  "partialMatchKey k key \<Longrightarrow>
     readQuery t f k fetched (markInvalidated key qc) =
       (fetched, True,
        (markInvalidated key qc)(k \<mapsto> \<lparr>data = fetched, dataUpdatedAt = t, isInvalidated = False\<rparr>))"
  by (auto simp add: readQuery_def markInvalidated_def split: option.splits)

lemma salesRequest_requests [simp]: "salesRequest u (s\<lparr>requests := r\<rparr>) = salesRequest u s"
  by (simp add: salesRequest_def salesQueryParams_def)

lemma salesQueryKey_requests [simp]: "salesQueryKey u (s\<lparr>requests := r\<rparr>) = salesQueryKey u s"
  by (simp add: salesQueryKey_def)

lemma invalidateSales_effect:
  "queryCache (invalidateSales u s) = markInvalidated salesKey (queryCache s)"
  "requests (invalidateSales u s) = requests s @ [salesRequest u s]"
  "toasts (invalidateSales u s) = toasts s"
  by (simp_all add: invalidateSales_def invalidateQueries_def salesQueryKey_match)

lemma deleteMutation_invalidates:
  "ok resp \<Longrightarrow>
     queryCache (deleteMutation u i resp s) = markInvalidated salesKey (queryCache s)
     \<and> last (requests (deleteMutation u i resp s)) = salesRequest u s"
  by (simp add: deleteMutation_def deleteMutation_mutationFn_def deleteMutation_onSuccess_def
        invalidateSales_effect toast_def fetch_def Let_def)

lemma markAsPaidMutation_invalidates:
  "ok resp \<Longrightarrow>
     queryCache (markAsPaidMutation u i resp s) = markInvalidated salesKey (queryCache s)
     \<and> last (requests (markAsPaidMutation u i resp s)) = salesRequest u s"
  by (simp add: markAsPaidMutation_def markAsPaidMutation_mutationFn_def
        markAsPaidMutation_onSuccess_def invalidateSales_effect toast_def fetch_def Let_def)

lemma resendSaleMutation_invalidates:
  "queryCache (resendSaleMutation u i (Inr resp) s) = markInvalidated salesKey (queryCache s)
   \<and> last (requests (resendSaleMutation u i (Inr resp) s)) = salesRequest u s"
  by (simp add: resendSaleMutation_def resendSaleMutation_mutationFn_def
        resendSaleMutation_onSuccess_def invalidateSales_effect toast_def fetch_def Let_def)

lemma clearAllSalesMutation_invalidates:
  "ok resp \<Longrightarrow>
     queryCache (clearAllSalesMutation u resp s) = markInvalidated salesKey (queryCache s)
     \<and> last (requests (clearAllSalesMutation u resp s)) = salesRequest u s"
  by (simp add: clearAllSalesMutation_def clearAllSalesMutation_mutationFn_def
        clearAllSalesMutation_onSuccess_def invalidateSales_effect toast_def fetch_def Let_def
        split: sum.splits)

lemma lastEvent_type_event_json:
  "lastEvent_type (Some (event_json \<lparr>type = ty, payload = p, timestamp = ts\<rparr>)) = Val (JStr ty)"
  by (simp add: lastEvent_type_def event_json_def)

lemma salesUpdateEffect_invalidates:
  "queryCache (salesUpdateEffect u (Some (event_json \<lparr>type = ''sales_update'', payload = p, timestamp = ts\<rparr>)) s)
     = markInvalidated salesKey (queryCache s)
   \<and> last (requests (salesUpdateEffect u
        (Some (event_json \<lparr>type = ''sales_update'', payload = p, timestamp = ts\<rparr>)) s))
     = salesRequest u s"
  by (simp add: salesUpdateEffect_def lastEvent_type_event_json invalidateSales_effect toast_def)

text \<open>
  C4. Each successful mutation of the page (delete, resend, mark-paid, bulk clear) and
  each received event of type \<open>sales_update\<close>, whatever its payload and timestamp,
  marks every cached entry under the key \<open>/api/sales\<close> and refetches the page that is
  rendered (the last request is the sales query of the rendered state). The mark
  reaches the entry of every sales page, whatever user, page, size, filter and sort
  its key holds, and the next read of any such key fetches and ends with the fetched
  page, however fresh the entry was.
\<close>

theorem order_pages_invalidated:
  "(ok resp \<longrightarrow>
      queryCache (deleteMutation u i resp s) = markInvalidated salesKey (queryCache s)
      \<and> last (requests (deleteMutation u i resp s)) = salesRequest u s)
   \<and> queryCache (resendSaleMutation u i (Inr resp) s) = markInvalidated salesKey (queryCache s)
   \<and> last (requests (resendSaleMutation u i (Inr resp) s)) = salesRequest u s
   \<and> (ok resp \<longrightarrow>
      queryCache (markAsPaidMutation u i resp s) = markInvalidated salesKey (queryCache s)
      \<and> last (requests (markAsPaidMutation u i resp s)) = salesRequest u s)
   \<and> (ok resp \<longrightarrow>
      queryCache (clearAllSalesMutation u resp s) = markInvalidated salesKey (queryCache s)
      \<and> last (requests (clearAllSalesMutation u resp s)) = salesRequest u s)
   \<and> queryCache (salesUpdateEffect u
        (Some (event_json \<lparr>type = ''sales_update'', payload = p, timestamp = ts\<rparr>)) s)
      = markInvalidated salesKey (queryCache s)
   \<and> last (requests (salesUpdateEffect u
        (Some (event_json \<lparr>type = ''sales_update'', payload = p, timestamp = ts\<rparr>)) s))
      = salesRequest u s
   \<and> (qc (salesQueryKey u' s0) = Some en \<longrightarrow>
         markInvalidated salesKey qc (salesQueryKey u' s0) = Some (en\<lparr>isInvalidated := True\<rparr>))
   \<and> readQuery t salesStaleTime (salesQueryKey u' s0) fetched (markInvalidated salesKey qc) =
         (fetched, True,
          (markInvalidated salesKey qc)
            (salesQueryKey u' s0 \<mapsto> \<lparr>data = fetched, dataUpdatedAt = t, isInvalidated = False\<rparr>))"
  using deleteMutation_invalidates [of resp u i s] resendSaleMutation_invalidates [of u i resp s]
    markAsPaidMutation_invalidates [of resp u i s] clearAllSalesMutation_invalidates [of resp u s]
    salesUpdateEffect_invalidates [of u p ts s]
    markInvalidated_marks [of qc "salesQueryKey u' s0" en salesKey, OF _ salesQueryKey_match]
    readQuery_invalidated [OF salesQueryKey_match, of t salesStaleTime u' s0 fetched qc]
  by blast

text \<open>C4 at a fresh cached page that is not the rendered one: read after the event that
  \<open>notifySalesUpdate\<close> sends is received, read after a confirmed payment, and read with
  neither.\<close>

theorem order_pages_invalidated_witness:
  "fst (readQuery 2000 salesStaleTime
          (salesQueryKey None (initial_client\<lparr>page := 2, selectedSellerId := ''9''\<rparr>)) (JStr ''new'')
          (queryCache (salesUpdateEffect None
             (Some (snd (hd (sent (snd (notifySalesUpdate \<lparr>now = 1000, send_throws = (\<lambda>_. False)\<rparr>
                \<lparr>connections = [1], readyState = (\<lambda>_. OPEN), handlers = {1}, intervals = {1},
                 sent = [], logs = []\<rparr>))))))
             (initial_client\<lparr>queryCache :=
                [salesQueryKey None (initial_client\<lparr>page := 2, selectedSellerId := ''9''\<rparr>)
                   \<mapsto> \<lparr>data = JStr ''old'', dataUpdatedAt = 1000, isInvalidated = False\<rparr>]\<rparr>))))
     = JStr ''new''
   \<and> fst (readQuery 2000 salesStaleTime
          (salesQueryKey None (initial_client\<lparr>page := 2, selectedSellerId := ''9''\<rparr>)) (JStr ''new'')
          (queryCache (markAsPaidMutation None 5 \<lparr>ok = True, body = JObj []\<rparr>
             (initial_client\<lparr>queryCache :=
                [salesQueryKey None (initial_client\<lparr>page := 2, selectedSellerId := ''9''\<rparr>)
                   \<mapsto> \<lparr>data = JStr ''old'', dataUpdatedAt = 1000, isInvalidated = False\<rparr>]\<rparr>))))
     = JStr ''new''
   \<and> fst (readQuery 2000 salesStaleTime
          (salesQueryKey None (initial_client\<lparr>page := 2, selectedSellerId := ''9''\<rparr>)) (JStr ''new'')
          [salesQueryKey None (initial_client\<lparr>page := 2, selectedSellerId := ''9''\<rparr>)
             \<mapsto> \<lparr>data = JStr ''old'', dataUpdatedAt = 1000, isInvalidated = False\<rparr>])
     = JStr ''old''"
proof -
  let ?k = "salesQueryKey None (initial_client\<lparr>page := 2, selectedSellerId := ''9''\<rparr>)"
  let ?en = "\<lparr>data = JStr ''old'', dataUpdatedAt = 1000, isInvalidated = False\<rparr>"
  let ?qc = "[?k \<mapsto> ?en]"
  let ?s = "initial_client\<lparr>queryCache := ?qc\<rparr>"
  let ?r = "\<lparr>ok = True, body = JObj []\<rparr>"
  let ?p = "Some (JObj [(''timestamp'', JNum 1000)])"
  have okr: "ok ?r" by simp
  have q: "queryCache ?s = ?qc" by simp
  have ev: "snd (hd (sent (snd (notifySalesUpdate \<lparr>now = 1000, send_throws = (\<lambda>_. False)\<rparr>
                \<lparr>connections = [1], readyState = (\<lambda>_. OPEN), handlers = {1}, intervals = {1},
                 sent = [], logs = []\<rparr>))))
            = event_json \<lparr>type = ''sales_update'', payload = ?p, timestamp = None\<rparr>"
    by (simp add: notifySalesUpdate_def broadcastEvent_def event_json_def log_def ws_send_def Let_def)
  note th = order_pages_invalidated [of ?r None 5 ?s ?p None ?qc None
      "initial_client\<lparr>page := 2, selectedSellerId := ''9''\<rparr>" ?en 2000 "JStr ''new''"]
  from th okr
  have 1: "queryCache (markAsPaidMutation None 5 ?r ?s) = markInvalidated salesKey (queryCache ?s)"
    and 2: "queryCache (salesUpdateEffect None
              (Some (event_json \<lparr>type = ''sales_update'', payload = ?p, timestamp = None\<rparr>)) ?s)
            = markInvalidated salesKey (queryCache ?s)"
    and 3: "fst (readQuery 2000 salesStaleTime ?k (JStr ''new'') (markInvalidated salesKey ?qc))
             = JStr ''new''"
    by simp_all
  have 4: "fst (readQuery 2000 salesStaleTime ?k (JStr ''new'') ?qc) = JStr ''old''"
    by (simp add: readQuery_def salesStaleTime_def)
  show ?thesis
    unfolding ev 1 2 q using 3 4 by blast
qed

lemma clearSalesButtonShown_iff:
  "clearSalesButtonShown isMobile u = (\<not> isMobile \<and> (role_is u ''admin'' \<or> role_is u ''operacional''))"
  by (simp add: clearSalesButtonShown_def toolbarButtons_def)

lemma clearAll_mutationFn_request:
  "requests (snd (clearAllSalesMutation_mutationFn resp s)) =
     requests s @ [\<lparr>http_method = ''DELETE'', url = ''/api/admin/clear-sales'', query = [],
                    payload_sent = None\<rparr>]"
  by (simp add: clearAllSalesMutation_mutationFn_def fetch_def Let_def)

lemma clearAll_mutationFn_ok:
  "ok resp \<Longrightarrow> fst (clearAllSalesMutation_mutationFn resp s) = Inr (body resp)"
  by (simp add: clearAllSalesMutation_mutationFn_def fetch_def Let_def)

lemma clearAll_toast:
  "ok resp \<Longrightarrow> get_prop (body resp) ''count'' = Inr c \<Longrightarrow>
     toasts (handleConfirmClearAllSales u resp s) = toasts s @ [ToastVendasRemovidas c]"
  by (simp add: handleConfirmClearAllSales_def clearAllSalesMutation_def
        clearAllSalesMutation_mutationFn_def clearAllSalesMutation_onSuccess_def
        invalidateSales_effect toast_def fetch_def Let_def)

lemma clearOrdersRoute_admin:
  "role_is u ''admin'' \<Longrightarrow>
     clearOrdersRoute u db = (\<lparr>ok = True, body = JObj [(''count'', JNum (int (length db)))]\<rparr>, [])"
  by (simp add: clearOrdersRoute_def)

text \<open>
  C8, as the code has it, with the purge route written from the specification. The
  button that clears all sales is shown in the desktop layout to the roles \<open>admin\<close>
  and \<open>operacional\<close>, and to nobody in the mobile layout; it opens the confirmation
  dialog, and the confirmed mutation sends the request whoever the user is. Performed
  for an administrator, the purge leaves no order, the mutation returns the count of
  the orders removed and the toast reports that count.
\<close>

theorem clear_sales_roles_and_count:
  "clearSalesButtonShown isMobile u
     = (\<not> isMobile \<and> (role_is u ''admin'' \<or> role_is u ''operacional''))
   \<and> clearSalesDialogOpen (handleClearAllSales s)
   \<and> requests (snd (clearAllSalesMutation_mutationFn resp s)) =
        requests s @ [\<lparr>http_method = ''DELETE'', url = ''/api/admin/clear-sales'', query = [],
                       payload_sent = None\<rparr>]
   \<and> (role_is u ''admin'' \<longrightarrow>
        snd (clearOrdersRoute u db) = []
        \<and> fst (clearAllSalesMutation_mutationFn (fst (clearOrdersRoute u db)) s)
            = Inr (JObj [(''count'', JNum (int (length db)))])
        \<and> toasts (handleConfirmClearAllSales u (fst (clearOrdersRoute u db)) s)
            = toasts s @ [ToastVendasRemovidas (Val (JNum (int (length db))))])"
proof -
  have "role_is u ''admin'' \<longrightarrow>
        snd (clearOrdersRoute u db) = []
        \<and> fst (clearAllSalesMutation_mutationFn (fst (clearOrdersRoute u db)) s)
            = Inr (JObj [(''count'', JNum (int (length db)))])
        \<and> toasts (handleConfirmClearAllSales u (fst (clearOrdersRoute u db)) s)
            = toasts s @ [ToastVendasRemovidas (Val (JNum (int (length db))))]"
    by (simp add: clearOrdersRoute_admin clearAll_mutationFn_ok clearAll_toast)
  then show ?thesis
    by (simp add: clearSalesButtonShown_iff handleClearAllSales_def clearAll_mutationFn_request)
qed

text \<open>C8 for an administrator on both layouts, a seller, and a purge of two orders.\<close>

theorem clear_sales_roles_and_count_witness:
  "clearSalesButtonShown False (Some \<lparr>user_id = 1, role = ''admin''\<rparr>)
   \<and> \<not> clearSalesButtonShown True (Some \<lparr>user_id = 1, role = ''admin''\<rparr>)
   \<and> \<not> clearSalesButtonShown False (Some \<lparr>user_id = 3, role = ''vendedor''\<rparr>)
   \<and> snd (clearOrdersRoute (Some \<lparr>user_id = 1, role = ''admin''\<rparr>)
        [\<lparr>sale_id = 1, orderNumber = ''A1'', sellerId = 7, status = ''pending'',
          executionStatus = ''pending'', financialStatus = ''pending''\<rparr>,
         \<lparr>sale_id = 2, orderNumber = ''A2'', sellerId = 9, status = ''completed'',
          executionStatus = ''completed'', financialStatus = ''paid''\<rparr>]) = []
   \<and> toasts (handleConfirmClearAllSales (Some \<lparr>user_id = 1, role = ''admin''\<rparr>)
        (fst (clearOrdersRoute (Some \<lparr>user_id = 1, role = ''admin''\<rparr>)
           [\<lparr>sale_id = 1, orderNumber = ''A1'', sellerId = 7, status = ''pending'',
             executionStatus = ''pending'', financialStatus = ''pending''\<rparr>,
            \<lparr>sale_id = 2, orderNumber = ''A2'', sellerId = 9, status = ''completed'',
             executionStatus = ''completed'', financialStatus = ''paid''\<rparr>]))
        initial_client)
       = [ToastVendasRemovidas (Val (JNum 2))]"
proof -
  let ?a = "Some \<lparr>user_id = 1, role = ''admin''\<rparr>"
  let ?v = "Some \<lparr>user_id = 3, role = ''vendedor''\<rparr>"
  let ?db = "[\<lparr>sale_id = 1, orderNumber = ''A1'', sellerId = 7, status = ''pending'',
          executionStatus = ''pending'', financialStatus = ''pending''\<rparr>,
         \<lparr>sale_id = 2, orderNumber = ''A2'', sellerId = 9, status = ''completed'',
          executionStatus = ''completed'', financialStatus = ''paid''\<rparr>]"
  have adm: "role_is ?a ''admin''" and nv: "\<not> role_is ?v ''admin''" "\<not> role_is ?v ''operacional''"
    by (simp_all add: role_is_def)
  have t0: "toasts initial_client = []" by (simp add: initial_client_def)
  have len: "int (length ?db) = 2" by simp
  from clear_sales_roles_and_count [of False ?a initial_client "\<lparr>ok = True, body = JNull\<rparr>" ?db] adm
  have 1: "clearSalesButtonShown False ?a"
    and 2: "snd (clearOrdersRoute ?a ?db) = []"
    and 3: "toasts (handleConfirmClearAllSales ?a (fst (clearOrdersRoute ?a ?db)) initial_client)
              = toasts initial_client @ [ToastVendasRemovidas (Val (JNum (int (length ?db))))]"
    by blast+
  from clear_sales_roles_and_count [of True ?a initial_client "\<lparr>ok = True, body = JNull\<rparr>" ?db]
  have 4: "\<not> clearSalesButtonShown True ?a" by blast
  from clear_sales_roles_and_count [of False ?v initial_client "\<lparr>ok = True, body = JNull\<rparr>" ?db] nv
  have 5: "\<not> clearSalesButtonShown False ?v" by blast
  from 1 2 3 4 5 show ?thesis unfolding t0 len by simp
qed

text \<open>C8 as stated fails: in the desktop layout a user of role \<open>operacional\<close>, who is
  not an administrator, is offered the purge.\<close>

theorem clear_sales_operacional_counterexample:
  "clearSalesButtonShown False (Some \<lparr>user_id = 2, role = ''operacional''\<rparr>)
   \<and> \<not> role_is (Some \<lparr>user_id = 2, role = ''operacional''\<rparr>) ''admin''"
  by (simp add: clearSalesButtonShown_def toolbarButtons_def role_is_def)

text \<open>
  C2, on the validator written from the specification. A mark-paid request is accepted
  only on an order that is completed and unpaid, and the order is then paid; on an
  order that is already paid it is rejected as \<open>TransitionNotAllowed\<close>, so a second
  request after an accepted one is rejected, whoever sends it. On the page, the
  button that sends the request is shown only for a sale whose status is
  \<open>completed\<close> and whose financial status is not \<open>paid\<close>.
\<close>

theorem mark_paid_only_completed_unpaid:
  "(validateMarkPaid ord r = Inr ord' \<longrightarrow>
      execution ord = completed \<and> financial ord = unpaid \<and> ord' = ord\<lparr>financial := paid\<rparr>)
   \<and> (financial ord = paid \<longrightarrow> validateMarkPaid ord r = Inl TransitionNotAllowed)
   \<and> (validateMarkPaid ord r = Inr ord' \<longrightarrow> validateMarkPaid ord' r' = Inl TransitionNotAllowed)
   \<and> (markPaidButtonShown u sale \<longrightarrow> status sale = ''completed'' \<and> financialStatus sale \<noteq> ''paid'')"
  by (auto simp: validateMarkPaid_def markPaidButtonShown_def split: if_splits)

text \<open>C2 on a completed order, before and after the payment, and on an order in progress.\<close>

theorem mark_paid_only_completed_unpaid_witness:
  "validateMarkPaid \<lparr>execution = completed, financial = unpaid\<rparr> finance
     = Inr \<lparr>execution = completed, financial = paid\<rparr>
   \<and> validateMarkPaid \<lparr>execution = completed, financial = paid\<rparr> finance = Inl TransitionNotAllowed
   \<and> validateMarkPaid \<lparr>execution = in_progress, financial = unpaid\<rparr> admin = Inl TransitionNotAllowed"
  using mark_paid_only_completed_unpaid [of "\<lparr>execution = completed, financial = unpaid\<rparr>" finance
      "\<lparr>execution = completed, financial = paid\<rparr>" finance]
    mark_paid_only_completed_unpaid [of "\<lparr>execution = in_progress, financial = unpaid\<rparr>" admin
      "\<lparr>execution = completed, financial = paid\<rparr>" admin]
  by (simp add: validateMarkPaid_def)

lemma queryPage_rows:
  "ord \<in> set (fst (queryPage flt key descending pg n sc db)) \<Longrightarrow>
     ord \<in> set db \<and> flt ord \<and> in_scope sc ord"
  by (auto simp: queryPage_def Let_def split: if_splits dest!: in_set_takeD in_set_dropD)

text \<open>
  C3, on the gateway written from the specification. For an actor of role
  \<open>vendedor\<close>, every order of the page that \<open>queryPage\<close> returns under the actor's
  scope has the actor as its seller, whatever filter (and so whatever seller
  parameter of the client), sort, page and page size the request carries.
\<close>

theorem seller_page_is_own_orders:
  assumes "role u = ''vendedor''"
  shows "\<forall>ord \<in> set (fst (queryPage flt key descending pg n (scope_of u) db)). sellerId ord = user_id u"
  using assms queryPage_rows [of _ flt key descending pg n "scope_of u" db]
  by (auto simp: scope_of_def in_scope_def)

lemma client_filter_replaces_own_id:
  "salesQueryParams (Some \<lparr>user_id = 7, role = ''vendedor''\<rparr>) (initial_client\<lparr>selectedSellerId := ''9''\<rparr>)
     = [(''page'', ''1''), (''limit'', ''15''), (''sortField'', ''date''), (''sortDirection'', ''desc''),
        (''sellerId'', ''9'')]"
  by (simp add: salesQueryParams_def initial_client_def toString_def digits.simps)

lemma client_own_id_without_filter:
  "salesQueryParams (Some \<lparr>user_id = 7, role = ''vendedor''\<rparr>) initial_client
     = [(''page'', ''1''), (''limit'', ''15''), (''sortField'', ''date''), (''sortDirection'', ''desc''),
        (''sellerId'', ''7'')]"
  by (simp add: salesQueryParams_def initial_client_def toString_def digits.simps)

text \<open>C3 for seller 7: with the client's seller filter set to seller 9, and with no filter.\<close>

theorem seller_page_is_own_orders_witness:
  "fst (queryPage
          (sellerParamFilter (salesQueryParams (Some \<lparr>user_id = 7, role = ''vendedor''\<rparr>)
             (initial_client\<lparr>selectedSellerId := ''9''\<rparr>)))
          sale_id False 1 15 (scope_of \<lparr>user_id = 7, role = ''vendedor''\<rparr>)
          [\<lparr>sale_id = 1, orderNumber = ''A1'', sellerId = 7, status = ''pending'',
            executionStatus = ''pending'', financialStatus = ''pending''\<rparr>,
           \<lparr>sale_id = 2, orderNumber = ''A2'', sellerId = 9, status = ''pending'',
            executionStatus = ''pending'', financialStatus = ''pending''\<rparr>]) = []
   \<and> fst (queryPage (\<lambda>ord. True)
          sale_id False 1 15 (scope_of \<lparr>user_id = 7, role = ''vendedor''\<rparr>)
          [\<lparr>sale_id = 1, orderNumber = ''A1'', sellerId = 7, status = ''pending'',
            executionStatus = ''pending'', financialStatus = ''pending''\<rparr>,
           \<lparr>sale_id = 2, orderNumber = ''A2'', sellerId = 9, status = ''pending'',
            executionStatus = ''pending'', financialStatus = ''pending''\<rparr>])
      = [\<lparr>sale_id = 1, orderNumber = ''A1'', sellerId = 7, status = ''pending'',
            executionStatus = ''pending'', financialStatus = ''pending''\<rparr>]"
proof -
  let ?u = "\<lparr>user_id = 7, role = ''vendedor''\<rparr>"
  let ?db = "[\<lparr>sale_id = 1, orderNumber = ''A1'', sellerId = 7, status = ''pending'',
            executionStatus = ''pending'', financialStatus = ''pending''\<rparr>,
           \<lparr>sale_id = 2, orderNumber = ''A2'', sellerId = 9, status = ''pending'',
            executionStatus = ''pending'', financialStatus = ''pending''\<rparr>]"
  have r: "role ?u = ''vendedor''" by simp
  note own = seller_page_is_own_orders [OF r, of _ sale_id False 1 15 ?db]
  have nine: "toString 9 = ''9''" and seven: "toString 7 = ''7''"
    by (simp_all add: toString_def digits.simps)
  have 1: "fst (queryPage
          (sellerParamFilter (salesQueryParams (Some ?u) (initial_client\<lparr>selectedSellerId := ''9''\<rparr>)))
          sale_id False 1 15 (scope_of ?u) ?db) = []"
    using own [of "sellerParamFilter (salesQueryParams (Some ?u) (initial_client\<lparr>selectedSellerId := ''9''\<rparr>))"]
    by (simp add: client_filter_replaces_own_id sellerParamFilter_def queryPage_def scope_of_def
          in_scope_def nine seven)
  have 2: "fst (queryPage (\<lambda>ord. True) sale_id False 1 15 (scope_of ?u) ?db)
             = [\<lparr>sale_id = 1, orderNumber = ''A1'', sellerId = 7, status = ''pending'',
                 executionStatus = ''pending'', financialStatus = ''pending''\<rparr>]"
    using own [of "\<lambda>ord. True"]
    by (simp add: queryPage_def scope_of_def in_scope_def)
  from 1 2 show ?thesis by blast
qed

lemma no_service_type_rejected:
  assumes "saleId d = Some sid" and "sid \<noteq> 0"
    and "selectedServiceTypeId d = None \<or> selectedServiceTypeId d = Some 0"
  shows "updateExecutionTypeMutation_mutationFn post mutateProviders d db
           = (Inl (Error (JStr msg_no_service_type)), d, db)"
  using assms by (auto simp: updateExecutionTypeMutation_mutationFn_def)

lemma no_provider_after_type_update:
  assumes "saleId d = Some sid" and "sid \<noteq> 0"
    and "selectedServiceTypeId d = Some ty" and "ty \<noteq> 0"
    and "hasPrestadorParceiro d" and "selectedServiceProviderIds d = []"
    and "ok (fst (post sid ty db))"
  shows "updateExecutionTypeMutation_mutationFn post mutateProviders d db
           = (Inl (Error (JStr msg_no_provider)), d, snd (post sid ty db))"
  using assms by (cases "post sid ty db") (simp add: updateExecutionTypeMutation_mutationFn_def)

text \<open>
  C1 at the input where the code departs from it: service type 5 is selected, the
  partner option is on and no provider is selected. The mutation ends with the error
  that names the missing provider, but only after the service-type request: the
  stored service type is 5, no longer absent.
\<close>

theorem no_provider_leaves_service_type_changed:
  "updateExecutionTypeMutation_mutationFn store_type (store_providers False)
     \<lparr>saleId = Some 1, selectedServiceTypeId = Some 5, hasPrestadorParceiro = True,
      selectedServiceProviderIds = [], saleServiceProviders = []\<rparr>
     \<lparr>serviceTypeId = None, providerIds = []\<rparr>
   = (Inl (Error (JStr msg_no_provider)),
      \<lparr>saleId = Some 1, selectedServiceTypeId = Some 5, hasPrestadorParceiro = True,
       selectedServiceProviderIds = [], saleServiceProviders = []\<rparr>,
      \<lparr>serviceTypeId = Some 5, providerIds = []\<rparr>)"
  by (simp add: updateExecutionTypeMutation_mutationFn_def store_type_def)

lemma failed_provider_update_keeps_type:
  "updateExecutionTypeMutation_mutationFn store_type (store_providers True)
     \<lparr>saleId = Some 1, selectedServiceTypeId = Some 5, hasPrestadorParceiro = True,
      selectedServiceProviderIds = [8], saleServiceProviders = []\<rparr>
     \<lparr>serviceTypeId = None, providerIds = []\<rparr>
   = (Inl (Error (JStr ''Erro ao atualizar prestadores'')),
      \<lparr>saleId = Some 1, selectedServiceTypeId = Some 5, hasPrestadorParceiro = True,
       selectedServiceProviderIds = [8], saleServiceProviders = []\<rparr>,
      \<lparr>serviceTypeId = Some 5, providerIds = []\<rparr>)"
  by (simp add: updateExecutionTypeMutation_mutationFn_def store_type_def store_providers_def)

end
